theory Spec2Isabelle
  imports Main
begin

section \<open>Values, exceptions and the environment of the loaders\<close>

text \<open>
  The values that \<^verbatim>\<open>yaml.safe_load\<close>, \<^verbatim>\<open>json.load\<close> and \<^verbatim>\<open>csv.DictReader\<close>
  hand to the loaders. A \<^verbatim>\<open>dict\<close> is an association list in insertion order, because
  \<^verbatim>\<open>list(d.keys())\<close> fixes the column order of the test data. Keys are strings, as the
  keys of a JSON object and the header names of a CSV file are. Floating-point scalars are
  left out: no operation of the loaders looks inside a scalar.
\<close>

datatype pyval =
    PNone
  | PBool bool
  | PInt int
  | PStr string
  | PList "pyval list"
  | PDict "(string \<times> pyval) list"

text \<open>
  The exceptions the two classes raise or let through. \<open>LibraryError\<close> stands for an
  exception raised inside one of the three parsers; it carries \<^verbatim>\<open>str(e)\<close>, which is all
  the loaders use of it.
\<close>

datatype exn =
    FileNotFoundError string
  | ValueError string
  | KeyError string
  | TypeError
  | AttributeError
  | LibraryError string

fun str_exn :: "exn \<Rightarrow> string" where
  "str_exn (FileNotFoundError m) = m"
| "str_exn (ValueError m) = m"
| "str_exn (KeyError k) = [CHR 0x27] @ k @ [CHR 0x27]"
| "str_exn TypeError = []"
| "str_exn AttributeError = []"
| "str_exn (LibraryError m) = m"

datatype level = INFO | ERROR

type_synonym log_record = "level \<times> string"

text \<open>
  What lies outside the repository: the files below the configuration and data
  directories (path to content; every entry is a readable regular file) and the three
  parsers, each a function of the path and the content of the file it is given, returning
  the message of the exception it raises or the parsed value.
\<close>

record world =
  files :: "string \<rightharpoonup> string"
  yaml_safe_load :: "string \<Rightarrow> string \<Rightarrow> string + pyval"
  json_load :: "string \<Rightarrow> string \<Rightarrow> string + pyval"
  csv_DictReader :: "string \<Rightarrow> string \<Rightarrow> string + (string \<times> pyval) list list"

definition path_exists :: "world \<Rightarrow> string \<Rightarrow> bool" where
  "path_exists W p = (files W p \<noteq> None)"

text \<open>\<^verbatim>\<open>os.path.join(a, b)\<close> on POSIX, for one component \<open>b\<close>.\<close>

definition path_join :: "string \<Rightarrow> string \<Rightarrow> string" where
  "path_join a b =
     (if b \<noteq> [] \<and> hd b = CHR ''/'' then b
      else if a = [] \<or> last a = CHR ''/'' then a @ b
      else a @ ''/'' @ b)"

text \<open>
  \<^verbatim>\<open>open(file_path, 'r')\<close>: the content of the file, or the \<^verbatim>\<open>FileNotFoundError\<close> of
  the operating system.
\<close>

definition open_file :: "world \<Rightarrow> string \<Rightarrow> exn + string" where
  "open_file W file_path =
     (case files W file_path of
        None \<Rightarrow> Inl (FileNotFoundError
                 (''[Errno 2] No such file or directory: '' @ [CHR 0x27] @ file_path @ [CHR 0x27]))
      | Some content \<Rightarrow> Inr content)"

text \<open>
  \<^verbatim>\<open>os.path.dirname(p)\<close> on POSIX: the part of \<open>p\<close> up to its last slash, without the
  trailing slashes unless it consists of slashes only.
\<close>

definition dirname :: "string \<Rightarrow> string" where
  "dirname p =
     (let head = rev (dropWhile (\<lambda>c. c \<noteq> CHR ''/'') (rev p))
      in if head \<noteq> [] \<and> \<not> list_all (\<lambda>c. c = CHR ''/'') head
         then rev (dropWhile (\<lambda>c. c = CHR ''/'') (rev head))
         else head)"

section \<open>ConfigLoader\<close>

text \<open>
  The instance: its directory, its cache, the records sent to its logger, and the paths
  it has opened so far, in order (kept to count the disk reads).
\<close>

record config_loader =
  config_dir :: string
  config_cache :: "string \<rightharpoonup> pyval"
  logged :: "log_record list"
  opened :: "string list"

definition cl_log :: "level \<Rightarrow> string \<Rightarrow> config_loader \<Rightarrow> config_loader" where
  "cl_log lv msg s = s\<lparr>logged := logged s @ [(lv, msg)]\<rparr>"

text \<open>
  \<^verbatim>\<open>ConfigLoader._load_yaml\<close> and \<^verbatim>\<open>ConfigLoader._load_json\<close>: open, parse, log; any
  exception is logged with the path and raised again unchanged.
\<close>

definition cl_load_yaml :: "world \<Rightarrow> config_loader \<Rightarrow> string \<Rightarrow> (exn + pyval) \<times> config_loader" where
  "cl_load_yaml W s file_path =
     (case open_file W file_path of
        Inl e \<Rightarrow>
          (Inl e, cl_log ERROR
             (''Failed to load YAML configuration from '' @ file_path @ '': '' @ str_exn e) s)
      | Inr content \<Rightarrow>
          (let s1 = s\<lparr>opened := opened s @ [file_path]\<rparr> in
           case yaml_safe_load W file_path content of
             Inl m \<Rightarrow>
               (Inl (LibraryError m), cl_log ERROR
                  (''Failed to load YAML configuration from '' @ file_path @ '': '' @ m) s1)
           | Inr data \<Rightarrow>
               (Inr data, cl_log INFO (''Loaded YAML configuration from '' @ file_path) s1)))"

definition cl_load_json :: "world \<Rightarrow> config_loader \<Rightarrow> string \<Rightarrow> (exn + pyval) \<times> config_loader" where
  "cl_load_json W s file_path =
     (case open_file W file_path of
        Inl e \<Rightarrow>
          (Inl e, cl_log ERROR
             (''Failed to load JSON configuration from '' @ file_path @ '': '' @ str_exn e) s)
      | Inr content \<Rightarrow>
          (let s1 = s\<lparr>opened := opened s @ [file_path]\<rparr> in
           case json_load W file_path content of
             Inl m \<Rightarrow>
               (Inl (LibraryError m), cl_log ERROR
                  (''Failed to load JSON configuration from '' @ file_path @ '': '' @ m) s1)
           | Inr data \<Rightarrow>
               (Inr data, cl_log INFO (''Loaded JSON configuration from '' @ file_path) s1)))"

text \<open>
  \<^verbatim>\<open>ConfigLoader._try_load_config\<close>. Python's \<^verbatim>\<open>None\<close> is both the answer "no file"
  and a possible parse result; the model returns \<open>PNone\<close> for both, as the code does.
\<close>

definition try_load_config :: "world \<Rightarrow> config_loader \<Rightarrow> string \<Rightarrow> (exn + pyval) \<times> config_loader" where
  "try_load_config W s config_name =
     (let yaml_path = path_join (config_dir s) (config_name @ ''.yaml'') in
      if path_exists W yaml_path then cl_load_yaml W s yaml_path
      else
        let yml_path = path_join (config_dir s) (config_name @ ''.yml'') in
        if path_exists W yml_path then cl_load_yaml W s yml_path
        else
          let json_path = path_join (config_dir s) (config_name @ ''.json'') in
          if path_exists W json_path then cl_load_json W s json_path
          else (Inr PNone, s))"

text \<open>The cache key of \<^verbatim>\<open>load_config\<close>: \<^verbatim>\<open>f"{config_name}_{environment}"\<close>.\<close>

definition cache_key :: "string \<Rightarrow> string \<Rightarrow> string" where
  "cache_key config_name environment = config_name @ ''_'' @ environment"

text \<open>\<^verbatim>\<open>ConfigLoader.load_config\<close>.\<close>

definition load_config ::
  "world \<Rightarrow> config_loader \<Rightarrow> string \<Rightarrow> string \<Rightarrow> (exn + pyval) \<times> config_loader" where
  "load_config W s config_name environment =
     (let key = cache_key config_name environment in
      case config_cache s key of
        Some cached \<Rightarrow> (Inr cached, s)
      | None \<Rightarrow>
          (case try_load_config W s (config_name @ ''_'' @ environment) of
             (Inl e, s1) \<Rightarrow> (Inl e, s1)
           | (Inr config_data, s1) \<Rightarrow>
               (case (if config_data = PNone \<and> environment \<noteq> ''default''
                      then try_load_config W s1 config_name
                      else (Inr config_data, s1)) of
                  (Inl e, s2) \<Rightarrow> (Inl e, s2)
                | (Inr config_data', s2) \<Rightarrow>
                    if config_data' = PNone
                    then (Inl (FileNotFoundError
                            (''Configuration file not found for '' @ config_name @
                             '' ('' @ environment @ '')'')), s2)
                    else (Inr config_data',
                          s2\<lparr>config_cache := (config_cache s2)(key \<mapsto> config_data')\<rparr>))))"

text \<open>A sequence of calls on one instance; the file system may change between calls.\<close>

fun run_loads :: "config_loader \<Rightarrow> (world \<times> string \<times> string) list \<Rightarrow> config_loader" where
  "run_loads s [] = s"
| "run_loads s ((W, config_name, environment) # calls) =
     run_loads (snd (load_config W s config_name environment)) calls"

text \<open>
  \<^verbatim>\<open>ConfigLoader.__init__\<close>. The first argument is the \<^verbatim>\<open>__file__\<close> of the module. The
  directory is \<^verbatim>\<open>config_dir or <default>\<close>: \<^verbatim>\<open>None\<close> and the empty string both select
  the \<^verbatim>\<open>config\<close> directory three levels above the module.
\<close>

definition new_config_loader :: "string \<Rightarrow> string option \<Rightarrow> config_loader" where
  "new_config_loader module_file dir =
     \<lparr>config_dir =
        (case dir of
           Some d \<Rightarrow>
             if d \<noteq> [] then d
             else path_join (dirname (dirname (dirname module_file))) ''config''
         | None \<Rightarrow> path_join (dirname (dirname (dirname module_file))) ''config''),
      config_cache = Map.empty, logged = [], opened = []\<rparr>"

section \<open>DataLoader\<close>

text \<open>
  \<^verbatim>\<open>str.lower\<close> and \<^verbatim>\<open>str.endswith\<close>. Strings are byte strings (UTF-8); lowering
  changes the ASCII capitals only. No character outside ASCII lowers to one of the
  letters of \<^verbatim>\<open>.csv\<close>, \<^verbatim>\<open>.json\<close>, \<^verbatim>\<open>.yaml\<close> or \<^verbatim>\<open>.yml\<close>, so the suffix tests
  of the loader come out as in Python.
\<close>

definition lower_char :: "char \<Rightarrow> char" where
  "lower_char c =
     (let n = (of_char c :: nat) in if 65 \<le> n \<and> n \<le> 90 then char_of (n + 32) else c)"

definition lower :: "string \<Rightarrow> string" where
  "lower s = map lower_char s"

definition endswith :: "string \<Rightarrow> string \<Rightarrow> bool" where
  "endswith s suffix =
     (length suffix \<le> length s \<and> drop (length s - length suffix) s = suffix)"

text \<open>\<^verbatim>\<open>str(n)\<close> for the row count of a log message.\<close>

function str_nat :: "nat \<Rightarrow> string" where
  "str_nat n =
     (if n < 10 then [char_of (48 + n)] else str_nat (n div 10) @ [char_of (48 + n mod 10)])"
  by pat_completeness auto
termination
  by (relation "measure id") auto

record data_loader =
  data_dir :: string
  dl_logged :: "log_record list"

definition dl_log :: "level \<Rightarrow> string \<Rightarrow> data_loader \<Rightarrow> data_loader" where
  "dl_log lv msg s = s\<lparr>dl_logged := dl_logged s @ [(lv, msg)]\<rparr>"

text \<open>
  \<^verbatim>\<open>DataLoader.__init__\<close>. The first argument is \<^verbatim>\<open>os.path.abspath(__file__)\<close> of the
  module. Only \<^verbatim>\<open>None\<close> selects the default here, the \<^verbatim>\<open>data\<close> directory three levels
  above the module.
\<close>

definition new_data_loader :: "string \<Rightarrow> string option \<Rightarrow> data_loader" where
  "new_data_loader module_abspath dir =
     \<lparr>data_dir =
        (case dir of
           None \<Rightarrow> path_join (dirname (dirname (dirname module_abspath))) ''data''
         | Some d \<Rightarrow> d),
      dl_logged = []\<rparr>"

text \<open>\<^verbatim>\<open>DataLoader._get_file_path\<close>.\<close>

definition get_file_path :: "world \<Rightarrow> data_loader \<Rightarrow> string \<Rightarrow> string option \<Rightarrow> exn + string" where
  "get_file_path W s file_name extension =
     (let file_name' =
            (case extension of
               None \<Rightarrow> file_name
             | Some ext \<Rightarrow>
                 if ext \<noteq> [] \<and> \<not> endswith (lower file_name) ext then file_name @ ext
                 else file_name);
          file_path = path_join (data_dir s) file_name'
      in if \<not> path_exists W file_path
         then Inl (FileNotFoundError (''File not found: '' @ file_path))
         else Inr file_path)"

text \<open>\<^verbatim>\<open>DataLoader.load_csv\<close>, \<^verbatim>\<open>load_json\<close> and \<^verbatim>\<open>load_yaml\<close>.\<close>

definition load_csv ::
  "world \<Rightarrow> data_loader \<Rightarrow> string \<Rightarrow> (exn + (string \<times> pyval) list list) \<times> data_loader" where
  "load_csv W s file_name =
     (case get_file_path W s file_name (Some ''.csv'') of
        Inl e \<Rightarrow> (Inl e, s)
      | Inr file_path \<Rightarrow>
          (case open_file W file_path of
             Inl e \<Rightarrow> (Inl e, dl_log ERROR (''CSV file not found: '' @ file_path) s)
           | Inr content \<Rightarrow>
               (case csv_DictReader W file_path content of
                  Inl m \<Rightarrow>
                    (Inl (LibraryError m),
                     dl_log ERROR (''Failed to load CSV file '' @ file_path @ '': '' @ m) s)
                | Inr data \<Rightarrow>
                    (Inr data,
                     dl_log INFO (''Loaded '' @ str_nat (length data) @
                                  '' rows from CSV file: '' @ file_path) s))))"

definition load_json :: "world \<Rightarrow> data_loader \<Rightarrow> string \<Rightarrow> (exn + pyval) \<times> data_loader" where
  "load_json W s file_name =
     (case get_file_path W s file_name (Some ''.json'') of
        Inl e \<Rightarrow> (Inl e, s)
      | Inr file_path \<Rightarrow>
          (case open_file W file_path of
             Inl e \<Rightarrow> (Inl e, dl_log ERROR (''JSON file not found: '' @ file_path) s)
           | Inr content \<Rightarrow>
               (case json_load W file_path content of
                  Inl m \<Rightarrow>
                    (Inl (LibraryError m),
                     dl_log ERROR (''Failed to load JSON file '' @ file_path @ '': '' @ m) s)
                | Inr data \<Rightarrow>
                    (Inr data, dl_log INFO (''Loaded JSON data from file: '' @ file_path) s))))"

definition load_yaml :: "world \<Rightarrow> data_loader \<Rightarrow> string \<Rightarrow> (exn + pyval) \<times> data_loader" where
  "load_yaml W s file_name =
     (let located =
            (case get_file_path W s file_name (Some ''.yaml'') of
               Inl (FileNotFoundError _) \<Rightarrow>
                 (case get_file_path W s file_name (Some ''.yml'') of
                    Inl (FileNotFoundError _) \<Rightarrow>
                      (Inl (FileNotFoundError (''YAML file not found: '' @ file_name)),
                       dl_log ERROR (''YAML file not found: '' @ file_name) s)
                  | r \<Rightarrow> (r, s))
             | r \<Rightarrow> (r, s))
      in case located of
           (Inl e, s1) \<Rightarrow> (Inl e, s1)
         | (Inr file_path, s1) \<Rightarrow>
             (case open_file W file_path of
                Inl e \<Rightarrow>
                  (Inl e, dl_log ERROR
                     (''Failed to load YAML file '' @ file_path @ '': '' @ str_exn e) s1)
              | Inr content \<Rightarrow>
                  (case yaml_safe_load W file_path content of
                     Inl m \<Rightarrow>
                       (Inl (LibraryError m),
                        dl_log ERROR (''Failed to load YAML file '' @ file_path @ '': '' @ m) s1)
                   | Inr data \<Rightarrow>
                       (Inr data, dl_log INFO (''Loaded YAML data from file: '' @ file_path) s1))))"

text \<open>
  \<^verbatim>\<open>list(data[0].keys())\<close> and \<^verbatim>\<open>item[key]\<close> for a string key: only a \<^verbatim>\<open>dict\<close> has
  \<^verbatim>\<open>keys\<close>, and subscripting any other value of the model with a string is a
  \<^verbatim>\<open>TypeError\<close>.
\<close>

fun dict_keys :: "pyval \<Rightarrow> exn + string list" where
  "dict_keys (PDict d) = Inr (map fst d)"
| "dict_keys _ = Inl AttributeError"

fun getitem :: "pyval \<Rightarrow> string \<Rightarrow> exn + pyval" where
  "getitem (PDict d) key = (case map_of d key of None \<Rightarrow> Inl (KeyError key) | Some v \<Rightarrow> Inr v)"
| "getitem _ key = Inl TypeError"

text \<open>
  \<^verbatim>\<open>tuple(item[key] for key in keys)\<close>: the keys are read from left to right and the
  first failing lookup ends the tuple. A tuple is the list of its components.
\<close>

fun make_tuple :: "pyval \<Rightarrow> string list \<Rightarrow> exn + pyval list" where
  "make_tuple item [] = Inr []"
| "make_tuple item (key # keys) =
     (case getitem item key of
        Inl e \<Rightarrow> Inl e
      | Inr v \<Rightarrow> (case make_tuple item keys of Inl e \<Rightarrow> Inl e | Inr vs \<Rightarrow> Inr (v # vs)))"

text \<open>
  The loop \<^verbatim>\<open>for item in data: result.append(tuple(...))\<close>, with \<^verbatim>\<open>result\<close> as it
  stands when the loop reaches the rest of the items.
\<close>

fun tuples_loop :: "string list \<Rightarrow> pyval list \<Rightarrow> pyval list list \<Rightarrow> exn + pyval list list" where
  "tuples_loop keys [] result = Inr result"
| "tuples_loop keys (item # items) result =
     (case make_tuple item keys of
        Inl e \<Rightarrow> Inl e
      | Inr t \<Rightarrow> tuples_loop keys items (result @ [t]))"

text \<open>\<^verbatim>\<open>DataLoader._load_test_data_from_csv\<close>, \<^verbatim>\<open>_from_json\<close> and \<^verbatim>\<open>_from_yaml\<close>.\<close>

definition load_test_data_from_csv ::
  "world \<Rightarrow> data_loader \<Rightarrow> string \<Rightarrow> (exn + pyval list list) \<times> data_loader" where
  "load_test_data_from_csv W s file_name =
     (case load_csv W s file_name of
        (Inl e, s1) \<Rightarrow> (Inl e, s1)
      | (Inr data, s1) \<Rightarrow>
          (case data of
             [] \<Rightarrow> (Inr [], s1)
           | first # _ \<Rightarrow>
               (case dict_keys (PDict first) of
                  Inl e \<Rightarrow> (Inl e, s1)
                | Inr columns \<Rightarrow> (tuples_loop columns (map PDict data) [], s1))))"

definition load_test_data_from_json ::
  "world \<Rightarrow> data_loader \<Rightarrow> string \<Rightarrow> (exn + pyval list list) \<times> data_loader" where
  "load_test_data_from_json W s file_name =
     (case load_json W s file_name of
        (Inl e, s1) \<Rightarrow> (Inl e, s1)
      | (Inr (PList data), s1) \<Rightarrow>
          (case data of
             [] \<Rightarrow> (Inr [], s1)
           | first # _ \<Rightarrow>
               (case dict_keys first of
                  Inl e \<Rightarrow> (Inl e, s1)
                | Inr keys \<Rightarrow> (tuples_loop keys data [], s1)))
      | (Inr _, s1) \<Rightarrow>
          (Inl (ValueError (''JSON test data must be a list of objects: '' @ file_name)), s1))"

definition load_test_data_from_yaml ::
  "world \<Rightarrow> data_loader \<Rightarrow> string \<Rightarrow> (exn + pyval list list) \<times> data_loader" where
  "load_test_data_from_yaml W s file_name =
     (case load_yaml W s file_name of
        (Inl e, s1) \<Rightarrow> (Inl e, s1)
      | (Inr (PList data), s1) \<Rightarrow>
          (case data of
             [] \<Rightarrow> (Inr [], s1)
           | first # _ \<Rightarrow>
               (case dict_keys first of
                  Inl e \<Rightarrow> (Inl e, s1)
                | Inr keys \<Rightarrow> (tuples_loop keys data [], s1)))
      | (Inr _, s1) \<Rightarrow>
          (Inl (ValueError (''YAML test data must be a list of objects: '' @ file_name)), s1))"

text \<open>\<^verbatim>\<open>DataLoader.load_test_data\<close>.\<close>

definition load_test_data ::
  "world \<Rightarrow> data_loader \<Rightarrow> string \<Rightarrow> (exn + pyval list list) \<times> data_loader" where
  "load_test_data W s file_name =
     (if endswith (lower file_name) ''.csv'' then load_test_data_from_csv W s file_name
      else if endswith (lower file_name) ''.json'' then load_test_data_from_json W s file_name
      else if endswith (lower file_name) ''.yaml'' \<or> endswith (lower file_name) ''.yml''
        then load_test_data_from_yaml W s file_name
      else (Inl (ValueError (''Unsupported file format for test data: '' @ file_name)), s))"


section \<open>Fixture files and parsers\<close>

text \<open>
  A few file contents, and parsers that answer on these contents as PyYAML, the
  \<^verbatim>\<open>json\<close> module and \<^verbatim>\<open>csv.DictReader\<close> do; any other content counts as malformed.
  They serve the concrete instances below.
\<close>

definition rows_csv_text :: string where
  "rows_csv_text = ''a,b'' @ [CHR 0x0A] @ ''1,2'' @ [CHR 0x0A] @ ''3,4'' @ [CHR 0x0A]"

definition rows_json_text :: string where
  \<open>rows_json_text = ''[{"a": "1", "b": "2"}, {"a": "3", "b": "4"}]''\<close>

definition rows_yaml_text :: string where
  \<open>rows_yaml_text =
     ''- a: "1"'' @ [CHR 0x0A] @ ''  b: "2"'' @ [CHR 0x0A] @
     ''- a: "3"'' @ [CHR 0x0A] @ ''  b: "4"'' @ [CHR 0x0A]\<close>

definition ragged_json_text :: string where
  \<open>ragged_json_text = ''[{"a": "1", "b": "2"}, {"a": "3"}, {"a": "5", "b": "6"}]''\<close>

definition mapping_json_text :: string where
  \<open>mapping_json_text = ''{"a": "1", "b": "2"}''\<close>

definition rows :: "(string \<times> pyval) list list" where
  "rows = [[(''a'', PStr ''1''), (''b'', PStr ''2'')], [(''a'', PStr ''3''), (''b'', PStr ''4'')]]"

definition ragged_rows :: "(string \<times> pyval) list list" where
  "ragged_rows =
     [[(''a'', PStr ''1''), (''b'', PStr ''2'')], [(''a'', PStr ''3'')],
      [(''a'', PStr ''5''), (''b'', PStr ''6'')]]"

text \<open>
  The text of the scanner error that PyYAML raises on \<^verbatim>\<open>a: b: c\<close> read from a file: the
  mark of the error names the stream.
\<close>

definition yaml_error_text :: "string \<Rightarrow> string" where
  \<open>yaml_error_text p =
     ''mapping values are not allowed here'' @ [CHR 0x0A] @
     ''  in "'' @ p @ ''", line 1, column 5''\<close>

definition fixture_yaml :: "string \<Rightarrow> string \<Rightarrow> string + pyval" where
  "fixture_yaml p c =
     (if c = ''base_url: http://dev'' then Inr (PDict [(''base_url'', PStr ''http://dev'')])
      else if c = ''base_url: http://all'' then Inr (PDict [(''base_url'', PStr ''http://all'')])
      else if c = rows_yaml_text then Inr (PList (map PDict rows))
      else if c = [] then Inr PNone
      else Inl (yaml_error_text p))"

definition fixture_json :: "string \<Rightarrow> string \<Rightarrow> string + pyval" where
  "fixture_json p c =
     (if c = ''null'' then Inr PNone
      else if c = ''{}'' then Inr (PDict [])
      else if c = rows_json_text then Inr (PList (map PDict rows))
      else if c = ragged_json_text then Inr (PList (map PDict ragged_rows))
      else if c = mapping_json_text then Inr (PDict [(''a'', PStr ''1''), (''b'', PStr ''2'')])
      else Inl ''Expecting value: line 1 column 1 (char 0)'')"

definition fixture_csv :: "string \<Rightarrow> string \<Rightarrow> string + (string \<times> pyval) list list" where
  "fixture_csv p c =
     (if c = rows_csv_text then Inr rows
      else if c = [] then Inr []
      else Inl ''line contains NUL'')"

definition fixture_world :: "(string \<times> string) list \<Rightarrow> world" where
  "fixture_world fs =
     \<lparr>files = map_of fs, yaml_safe_load = fixture_yaml, json_load = fixture_json,
      csv_DictReader = fixture_csv\<rparr>"

text \<open>Where the two modules are installed.\<close>

definition config_loader_file :: string where
  "config_loader_file = ''/srv/app/ui_automation/core/config_loader.py''"

definition data_loader_file :: string where
  "data_loader_file = ''/srv/app/ui_automation/utils/data_loader.py''"

text \<open>
  Whether a text occurs inside another, for the statements about what an error message
  names.
\<close>

definition mentions :: "string \<Rightarrow> string \<Rightarrow> bool" where
  "mentions s part = list_ex (\<lambda>i. take (length part) (drop i s) = part) [0 ..< Suc (length s)]"


section \<open>ConfigLoader: the search and the cache\<close>

lemma cl_load_yaml_ok:
  assumes "files W p = Some c" and "yaml_safe_load W p c = Inr v"
  shows "cl_load_yaml W s p =
         (Inr v, s\<lparr>logged := logged s @ [(INFO, ''Loaded YAML configuration from '' @ p)],
                   opened := opened s @ [p]\<rparr>)"
  using assms by (simp add: cl_load_yaml_def open_file_def cl_log_def)

lemma cl_load_json_ok:
  assumes "files W p = Some c" and "json_load W p c = Inr v"
  shows "cl_load_json W s p =
         (Inr v, s\<lparr>logged := logged s @ [(INFO, ''Loaded JSON configuration from '' @ p)],
                   opened := opened s @ [p]\<rparr>)"
  using assms by (simp add: cl_load_json_def open_file_def cl_log_def)

lemma cl_load_yaml_bad:
  assumes "files W p = Some c" and "yaml_safe_load W p c = Inl m"
  shows "cl_load_yaml W s p =
         (Inl (LibraryError m),
          s\<lparr>logged := logged s @ [(ERROR, ''Failed to load YAML configuration from '' @ p @ '': '' @ m)],
            opened := opened s @ [p]\<rparr>)"
  using assms by (simp add: cl_load_yaml_def open_file_def cl_log_def)

lemma cl_load_json_bad:
  assumes "files W p = Some c" and "json_load W p c = Inl m"
  shows "cl_load_json W s p =
         (Inl (LibraryError m),
          s\<lparr>logged := logged s @ [(ERROR, ''Failed to load JSON configuration from '' @ p @ '': '' @ m)],
            opened := opened s @ [p]\<rparr>)"
  using assms by (simp add: cl_load_json_def open_file_def cl_log_def)

lemma try_load_config_yaml:
  "path_exists W (path_join (config_dir s) (n @ ''.yaml'')) \<Longrightarrow>
   try_load_config W s n = cl_load_yaml W s (path_join (config_dir s) (n @ ''.yaml''))"
  by (simp add: try_load_config_def)

lemma try_load_config_yml:
  "\<not> path_exists W (path_join (config_dir s) (n @ ''.yaml'')) \<Longrightarrow>
   path_exists W (path_join (config_dir s) (n @ ''.yml'')) \<Longrightarrow>
   try_load_config W s n = cl_load_yaml W s (path_join (config_dir s) (n @ ''.yml''))"
  by (simp add: try_load_config_def)

lemma try_load_config_json:
  "\<not> path_exists W (path_join (config_dir s) (n @ ''.yaml'')) \<Longrightarrow>
   \<not> path_exists W (path_join (config_dir s) (n @ ''.yml'')) \<Longrightarrow>
   path_exists W (path_join (config_dir s) (n @ ''.json'')) \<Longrightarrow>
   try_load_config W s n = cl_load_json W s (path_join (config_dir s) (n @ ''.json''))"
  by (simp add: try_load_config_def)

lemma try_load_config_none:
  "\<not> path_exists W (path_join (config_dir s) (n @ ''.yaml'')) \<Longrightarrow>
   \<not> path_exists W (path_join (config_dir s) (n @ ''.yml'')) \<Longrightarrow>
   \<not> path_exists W (path_join (config_dir s) (n @ ''.json'')) \<Longrightarrow>
   try_load_config W s n = (Inr PNone, s)"
  by (simp add: try_load_config_def)

lemma cl_load_yaml_cache:
  "config_cache (snd (cl_load_yaml W s p)) = config_cache s"
  by (simp add: cl_load_yaml_def cl_log_def Let_def split: sum.splits)

lemma cl_load_json_cache:
  "config_cache (snd (cl_load_json W s p)) = config_cache s"
  by (simp add: cl_load_json_def cl_log_def Let_def split: sum.splits)

lemma try_load_config_cache:
  "config_cache (snd (try_load_config W s n)) = config_cache s"
  by (simp add: try_load_config_def Let_def cl_load_yaml_cache cl_load_json_cache)

lemma load_config_cache_hit:
  "config_cache s (cache_key n e) = Some v \<Longrightarrow> load_config W s n e = (Inr v, s)"
  by (simp add: load_config_def)

lemma load_config_success_cached:
  assumes "load_config W s n e = (Inr v, s1)"
  shows "config_cache s1 (cache_key n e) = Some v"
  using assms
  by (auto simp: load_config_def Let_def split: option.splits prod.splits sum.splits if_splits)

lemma load_config_cache_mono:
  assumes "config_cache s k = Some v"
  shows "config_cache (snd (load_config W s n e)) k = Some v"
proof (cases "config_cache s (cache_key n e)")
  case (Some c)
  then show ?thesis using assms by (simp add: load_config_def)
next
  case None
  then have neq: "cache_key n e \<noteq> k" using assms by auto
  obtain r1 s1 where t1: "try_load_config W s (n @ ''_'' @ e) = (r1, s1)" by force
  then have c1: "config_cache s1 = config_cache s"
    using try_load_config_cache[of W s "n @ ''_'' @ e"] by simp
  obtain r2 s2 where t2: "try_load_config W s1 n = (r2, s2)" by force
  then have c2: "config_cache s2 = config_cache s"
    using try_load_config_cache[of W s1 n] c1 by simp
  show ?thesis
    using None assms neq t1 t2 c1 c2
    by (auto simp: load_config_def Let_def split: sum.splits)
qed

lemma run_loads_cache_mono:
  "config_cache s k = Some v \<Longrightarrow> config_cache (run_loads s calls) k = Some v"
proof (induction calls arbitrary: s)
  case Nil
  then show ?case by simp
next
  case (Cons c calls)
  obtain W n e where c: "c = (W, n, e)" by (cases c) auto
  show ?case using Cons.prems by (simp add: c Cons.IH load_config_cache_mono)
qed

text \<open>What \<open>load_config\<close> does on a cache miss, by the outcome of the two searches.\<close>

lemma load_config_miss_first_raises:
  assumes "config_cache s (cache_key n e) = None"
    and "try_load_config W s (n @ ''_'' @ e) = (Inl x, s1)"
  shows "load_config W s n e = (Inl x, s1)"
  using assms by (simp add: load_config_def)

lemma load_config_miss_first_found:
  assumes "config_cache s (cache_key n e) = None"
    and "try_load_config W s (n @ ''_'' @ e) = (Inr v, s1)" and "v \<noteq> PNone"
  shows "load_config W s n e =
         (Inr v, s1\<lparr>config_cache := (config_cache s1)(cache_key n e \<mapsto> v)\<rparr>)"
  using assms by (simp add: load_config_def)

lemma load_config_miss_default_env:
  assumes "config_cache s (cache_key n ''default'') = None"
    and "try_load_config W s (n @ ''_'' @ ''default'') = (Inr PNone, s1)"
  shows "load_config W s n ''default'' =
         (Inl (FileNotFoundError (''Configuration file not found for '' @ n @ '' (default)'')), s1)"
  using assms by (simp add: load_config_def)

lemma load_config_miss_second_raises:
  assumes "config_cache s (cache_key n e) = None" and "e \<noteq> ''default''"
    and "try_load_config W s (n @ ''_'' @ e) = (Inr PNone, s1)"
    and "try_load_config W s1 n = (Inl x, s2)"
  shows "load_config W s n e = (Inl x, s2)"
  using assms by (simp add: load_config_def)

lemma load_config_miss_second_found:
  assumes "config_cache s (cache_key n e) = None" and "e \<noteq> ''default''"
    and "try_load_config W s (n @ ''_'' @ e) = (Inr PNone, s1)"
    and "try_load_config W s1 n = (Inr v, s2)" and "v \<noteq> PNone"
  shows "load_config W s n e =
         (Inr v, s2\<lparr>config_cache := (config_cache s2)(cache_key n e \<mapsto> v)\<rparr>)"
  using assms by (simp add: load_config_def)

lemma load_config_miss_second_none:
  assumes "config_cache s (cache_key n e) = None" and "e \<noteq> ''default''"
    and "try_load_config W s (n @ ''_'' @ e) = (Inr PNone, s1)"
    and "try_load_config W s1 n = (Inr PNone, s2)"
  shows "load_config W s n e =
         (Inl (FileNotFoundError (''Configuration file not found for '' @ n @ '' ('' @ e @ '')'')), s2)"
  using assms by (simp add: load_config_def)

text \<open>The directory of a new loader: given, or the default when none or an empty one is given.\<close>

lemma new_config_loader_dir:
  "config_dir (new_config_loader config_loader_file (Some ''cfg'')) = ''cfg'' \<and>
   config_dir (new_config_loader config_loader_file (Some [])) = ''/srv/app/config'' \<and>
   config_dir (new_config_loader config_loader_file None) = ''/srv/app/config''"
  by code_simp

section \<open>ConfigLoader: the claims\<close>

text \<open>
  Claim C4. For every configuration base name the search tries \<^verbatim>\<open>.yaml\<close>, then
  \<^verbatim>\<open>.yml\<close>, then \<^verbatim>\<open>.json\<close>, and the first file that exists wins: the search
  ends with the outcome of loading that file and looks at no later one. When the
  \<^verbatim>\<open>.yaml\<close> file exists and parses, its value is returned and it is the only file opened,
  whatever else exists; with no \<^verbatim>\<open>.yaml\<close> file, the same holds of the \<^verbatim>\<open>.yml\<close> file.
\<close>

theorem try_load_config_extension_order:
  fixes W :: world and s :: config_loader and config_name :: string
  defines "yaml_path \<equiv> path_join (config_dir s) (config_name @ ''.yaml'')"
    and "yml_path \<equiv> path_join (config_dir s) (config_name @ ''.yml'')"
    and "json_path \<equiv> path_join (config_dir s) (config_name @ ''.json'')"
  shows
    "(path_exists W yaml_path \<longrightarrow>
        try_load_config W s config_name = cl_load_yaml W s yaml_path) \<and>
     (\<not> path_exists W yaml_path \<and> path_exists W yml_path \<longrightarrow>
        try_load_config W s config_name = cl_load_yaml W s yml_path) \<and>
     (\<not> path_exists W yaml_path \<and> \<not> path_exists W yml_path \<and> path_exists W json_path \<longrightarrow>
        try_load_config W s config_name = cl_load_json W s json_path) \<and>
     (\<not> path_exists W yaml_path \<and> \<not> path_exists W yml_path \<and> \<not> path_exists W json_path \<longrightarrow>
        try_load_config W s config_name = (Inr PNone, s)) \<and>
     (\<forall>c v. files W yaml_path = Some c \<and> yaml_safe_load W yaml_path c = Inr v \<longrightarrow>
        fst (try_load_config W s config_name) = Inr v \<and>
        opened (snd (try_load_config W s config_name)) = opened s @ [yaml_path]) \<and>
     (\<forall>c v. files W yaml_path = None \<and> files W yml_path = Some c \<and>
            yaml_safe_load W yml_path c = Inr v \<longrightarrow>
        fst (try_load_config W s config_name) = Inr v \<and>
        opened (snd (try_load_config W s config_name)) = opened s @ [yml_path])"
proof (intro conjI impI allI)
  assume "path_exists W yaml_path"
  then show "try_load_config W s config_name = cl_load_yaml W s yaml_path"
    unfolding yaml_path_def by (rule try_load_config_yaml)
next
  assume "\<not> path_exists W yaml_path \<and> path_exists W yml_path"
  then show "try_load_config W s config_name = cl_load_yaml W s yml_path"
    unfolding yaml_path_def yml_path_def by (simp add: try_load_config_yml)
next
  assume "\<not> path_exists W yaml_path \<and> \<not> path_exists W yml_path \<and> path_exists W json_path"
  then show "try_load_config W s config_name = cl_load_json W s json_path"
    unfolding yaml_path_def yml_path_def json_path_def by (simp add: try_load_config_json)
next
  assume "\<not> path_exists W yaml_path \<and> \<not> path_exists W yml_path \<and> \<not> path_exists W json_path"
  then show "try_load_config W s config_name = (Inr PNone, s)"
    unfolding yaml_path_def yml_path_def json_path_def by (simp add: try_load_config_none)
next
  fix c v
  assume h: "files W yaml_path = Some c \<and> yaml_safe_load W yaml_path c = Inr v"
  then have "path_exists W yaml_path" by (simp add: path_exists_def)
  then have "try_load_config W s config_name = cl_load_yaml W s yaml_path"
    unfolding yaml_path_def by (rule try_load_config_yaml)
  with h have t: "try_load_config W s config_name =
      (Inr v, s\<lparr>logged := logged s @ [(INFO, ''Loaded YAML configuration from '' @ yaml_path)],
                opened := opened s @ [yaml_path]\<rparr>)"
    by (simp add: cl_load_yaml_ok)
  show "fst (try_load_config W s config_name) = Inr v" by (simp add: t)
  show "opened (snd (try_load_config W s config_name)) = opened s @ [yaml_path]" by (simp add: t)
next
  fix c v
  assume h: "files W yaml_path = None \<and> files W yml_path = Some c \<and>
             yaml_safe_load W yml_path c = Inr v"
  then have "\<not> path_exists W yaml_path" and "path_exists W yml_path"
    by (simp_all add: path_exists_def)
  then have "try_load_config W s config_name = cl_load_yaml W s yml_path"
    unfolding yaml_path_def yml_path_def by (rule try_load_config_yml)
  with h have t: "try_load_config W s config_name =
      (Inr v, s\<lparr>logged := logged s @ [(INFO, ''Loaded YAML configuration from '' @ yml_path)],
                opened := opened s @ [yml_path]\<rparr>)"
    by (simp add: cl_load_yaml_ok)
  show "fst (try_load_config W s config_name) = Inr v" by (simp add: t)
  show "opened (snd (try_load_config W s config_name)) = opened s @ [yml_path]" by (simp add: t)
qed

text \<open>
  With both \<^verbatim>\<open>app.yaml\<close> and \<^verbatim>\<open>app.json\<close> present the YAML file is returned, and so is
  \<^verbatim>\<open>app.yml\<close> when it stands beside \<^verbatim>\<open>app.json\<close>.
\<close>

theorem try_load_config_extension_order_witness:
  "path_exists (fixture_world [(''cfg/app.json'', ''{}''), (''cfg/app.yaml'', ''base_url: http://all'')])
     ''cfg/app.yaml'' \<and>
   path_exists (fixture_world [(''cfg/app.json'', ''{}''), (''cfg/app.yaml'', ''base_url: http://all'')])
     ''cfg/app.json'' \<and>
   fst (try_load_config
          (fixture_world [(''cfg/app.json'', ''{}''), (''cfg/app.yaml'', ''base_url: http://all'')])
          (new_config_loader config_loader_file (Some ''cfg'')) ''app'') = Inr (PDict [(''base_url'', PStr ''http://all'')]) \<and>
   opened (snd (try_load_config
          (fixture_world [(''cfg/app.json'', ''{}''), (''cfg/app.yaml'', ''base_url: http://all'')])
          (new_config_loader config_loader_file (Some ''cfg'')) ''app'')) = [''cfg/app.yaml''] \<and>
   path_exists (fixture_world [(''cfg/app.json'', ''{}''), (''cfg/app.yml'', ''base_url: http://dev'')])
     ''cfg/app.json'' \<and>
   fst (try_load_config
          (fixture_world [(''cfg/app.json'', ''{}''), (''cfg/app.yml'', ''base_url: http://dev'')])
          (new_config_loader config_loader_file (Some ''cfg'')) ''app'') = Inr (PDict [(''base_url'', PStr ''http://dev'')])"
proof -
  let ?W = "fixture_world [(''cfg/app.json'', ''{}''), (''cfg/app.yaml'', ''base_url: http://all'')]"
  let ?V = "fixture_world [(''cfg/app.json'', ''{}''), (''cfg/app.yml'', ''base_url: http://dev'')]"
  let ?s = "new_config_loader config_loader_file (Some ''cfg'')"
  have p: "path_join (config_dir ?s) (''app'' @ ''.yaml'') = ''cfg/app.yaml''"
          "path_join (config_dir ?s) (''app'' @ ''.yml'') = ''cfg/app.yml''"
    by (simp_all add: path_join_def new_config_loader_def)
  have o: "opened ?s = []" by (simp add: new_config_loader_def)
  have e: "path_exists ?W ''cfg/app.yaml''" "path_exists ?W ''cfg/app.json''"
          "path_exists ?V ''cfg/app.json''"
    by (simp_all add: path_exists_def fixture_world_def)
  have w: "files ?W ''cfg/app.yaml'' = Some ''base_url: http://all'' \<and>
           yaml_safe_load ?W ''cfg/app.yaml'' ''base_url: http://all'' =
             Inr (PDict [(''base_url'', PStr ''http://all'')])"
    by (simp add: fixture_world_def fixture_yaml_def)
  have v: "files ?V ''cfg/app.yaml'' = None \<and>
           files ?V ''cfg/app.yml'' = Some ''base_url: http://dev'' \<and>
           yaml_safe_load ?V ''cfg/app.yml'' ''base_url: http://dev'' =
             Inr (PDict [(''base_url'', PStr ''http://dev'')])"
    by (simp add: fixture_world_def fixture_yaml_def)
  from try_load_config_extension_order[of ?W ?s "''app''"] w
  have a: "fst (try_load_config ?W ?s ''app'') = Inr (PDict [(''base_url'', PStr ''http://all'')]) \<and>
           opened (snd (try_load_config ?W ?s ''app'')) = [''cfg/app.yaml'']"
    unfolding p o by simp
  from try_load_config_extension_order[of ?V ?s "''app''"] v
  have b: "fst (try_load_config ?V ?s ''app'') = Inr (PDict [(''base_url'', PStr ''http://dev'')])"
    unfolding p o by simp
  from e a b show ?thesis by blast
qed

lemma cl_load_yaml_agree:
  "files W' p = files W p \<Longrightarrow> yaml_safe_load W' = yaml_safe_load W \<Longrightarrow>
   cl_load_yaml W' s p = cl_load_yaml W s p"
  by (simp add: cl_load_yaml_def open_file_def split: option.splits sum.splits)

lemma cl_load_json_agree:
  "files W' p = files W p \<Longrightarrow> json_load W' = json_load W \<Longrightarrow>
   cl_load_json W' s p = cl_load_json W s p"
  by (simp add: cl_load_json_def open_file_def split: option.splits sum.splits)

lemma try_load_config_agree:
  assumes "files W' (path_join (config_dir s) (n @ ''.yaml'')) =
           files W (path_join (config_dir s) (n @ ''.yaml''))"
    and "files W' (path_join (config_dir s) (n @ ''.yml'')) =
         files W (path_join (config_dir s) (n @ ''.yml''))"
    and "files W' (path_join (config_dir s) (n @ ''.json'')) =
         files W (path_join (config_dir s) (n @ ''.json''))"
    and "yaml_safe_load W' = yaml_safe_load W" and "json_load W' = json_load W"
  shows "try_load_config W' s n = try_load_config W s n"
proof -
  have y: "cl_load_yaml W' s (path_join (config_dir s) (n @ ''.yaml'')) =
           cl_load_yaml W s (path_join (config_dir s) (n @ ''.yaml''))"
    using assms(1,4) by (rule cl_load_yaml_agree)
  have m: "cl_load_yaml W' s (path_join (config_dir s) (n @ ''.yml'')) =
           cl_load_yaml W s (path_join (config_dir s) (n @ ''.yml''))"
    using assms(2,4) by (rule cl_load_yaml_agree)
  have j: "cl_load_json W' s (path_join (config_dir s) (n @ ''.json'')) =
           cl_load_json W s (path_join (config_dir s) (n @ ''.json''))"
    using assms(3,5) by (rule cl_load_json_agree)
  show ?thesis
    by (simp add: try_load_config_def Let_def path_exists_def assms(1,2,3) y m j)
qed

text \<open>
  Claim C10. With the environment \<^verbatim>\<open>default\<close>, a search (a call that misses the cache)
  that finds none of \<^verbatim>\<open>{name}_default.yaml\<close>, \<^verbatim>\<open>.yml\<close>, \<^verbatim>\<open>.json\<close> fails with the
  not-found error and touches nothing, whether or not \<^verbatim>\<open>{name}.yaml\<close> exists. The files
  without the suffix are never consulted: two file systems that agree on the three suffixed
  paths give the same outcome.
\<close>

theorem load_config_default_no_fallback:
  fixes W W' :: world and s :: config_loader and config_name :: string
  defines "yaml_path \<equiv> path_join (config_dir s) (config_name @ ''_default.yaml'')"
    and "yml_path \<equiv> path_join (config_dir s) (config_name @ ''_default.yml'')"
    and "json_path \<equiv> path_join (config_dir s) (config_name @ ''_default.json'')"
  shows
    "(config_cache s (cache_key config_name ''default'') = None \<and>
      \<not> path_exists W yaml_path \<and> \<not> path_exists W yml_path \<and> \<not> path_exists W json_path \<longrightarrow>
        load_config W s config_name ''default'' =
          (Inl (FileNotFoundError
                  (''Configuration file not found for '' @ config_name @ '' (default)'')), s)) \<and>
     (files W' yaml_path = files W yaml_path \<and> files W' yml_path = files W yml_path \<and>
      files W' json_path = files W json_path \<and>
      yaml_safe_load W' = yaml_safe_load W \<and> json_load W' = json_load W \<longrightarrow>
        load_config W' s config_name ''default'' = load_config W s config_name ''default'')"
proof (intro conjI impI)
  assume h: "config_cache s (cache_key config_name ''default'') = None \<and>
      \<not> path_exists W yaml_path \<and> \<not> path_exists W yml_path \<and> \<not> path_exists W json_path"
  then have "try_load_config W s (config_name @ ''_'' @ ''default'') = (Inr PNone, s)"
    unfolding yaml_path_def yml_path_def json_path_def
    by (intro try_load_config_none) simp_all
  with h show "load_config W s config_name ''default'' =
          (Inl (FileNotFoundError
                  (''Configuration file not found for '' @ config_name @ '' (default)'')), s)"
    by (simp add: load_config_miss_default_env)
next
  assume h: "files W' yaml_path = files W yaml_path \<and> files W' yml_path = files W yml_path \<and>
      files W' json_path = files W json_path \<and>
      yaml_safe_load W' = yaml_safe_load W \<and> json_load W' = json_load W"
  then have "try_load_config W' s (config_name @ ''_'' @ ''default'') =
             try_load_config W s (config_name @ ''_'' @ ''default'')"
    unfolding yaml_path_def yml_path_def json_path_def
    by (intro try_load_config_agree) simp_all
  then show "load_config W' s config_name ''default'' = load_config W s config_name ''default''"
    by (cases "config_cache s (cache_key config_name ''default'')") (simp_all add: load_config_def split: prod.splits sum.splits)
qed

text \<open>
  A directory holding only \<^verbatim>\<open>app.yaml\<close>: the default environment is not found, exactly as
  in an empty directory.
\<close>

theorem load_config_default_no_fallback_witness:
  "path_exists (fixture_world [(''cfg/app.yaml'', ''base_url: http://all'')]) ''cfg/app.yaml'' \<and>
   load_config (fixture_world [(''cfg/app.yaml'', ''base_url: http://all'')])
     (new_config_loader config_loader_file (Some ''cfg'')) ''app'' ''default'' =
     (Inl (FileNotFoundError ''Configuration file not found for app (default)''),
      new_config_loader config_loader_file (Some ''cfg'')) \<and>
   load_config (fixture_world []) (new_config_loader config_loader_file (Some ''cfg'')) ''app'' ''default'' =
   load_config (fixture_world [(''cfg/app.yaml'', ''base_url: http://all'')])
     (new_config_loader config_loader_file (Some ''cfg'')) ''app'' ''default''"
proof -
  let ?W = "fixture_world [(''cfg/app.yaml'', ''base_url: http://all'')]"
  let ?E = "fixture_world []"
  let ?s = "new_config_loader config_loader_file (Some ''cfg'')"
  have p: "path_join (config_dir ?s) (''app'' @ ''_default.yaml'') = ''cfg/app_default.yaml''"
          "path_join (config_dir ?s) (''app'' @ ''_default.yml'') = ''cfg/app_default.yml''"
          "path_join (config_dir ?s) (''app'' @ ''_default.json'') = ''cfg/app_default.json''"
    by (simp_all add: path_join_def new_config_loader_def)
  have e: "path_exists ?W ''cfg/app.yaml''"
    by (simp add: path_exists_def fixture_world_def)
  have h: "config_cache ?s (cache_key ''app'' ''default'') = None \<and>
           \<not> path_exists ?W ''cfg/app_default.yaml'' \<and> \<not> path_exists ?W ''cfg/app_default.yml'' \<and>
           \<not> path_exists ?W ''cfg/app_default.json''"
    by (simp add: path_exists_def fixture_world_def new_config_loader_def)
  have g: "files ?E ''cfg/app_default.yaml'' = files ?W ''cfg/app_default.yaml'' \<and>
           files ?E ''cfg/app_default.yml'' = files ?W ''cfg/app_default.yml'' \<and>
           files ?E ''cfg/app_default.json'' = files ?W ''cfg/app_default.json'' \<and>
           yaml_safe_load ?E = yaml_safe_load ?W \<and> json_load ?E = json_load ?W"
    by (simp add: fixture_world_def)
  from load_config_default_no_fallback[of ?s "''app''" ?W ?E] h g
  have "load_config ?W ?s ''app'' ''default'' =
          (Inl (FileNotFoundError ''Configuration file not found for app (default)''), ?s) \<and>
        load_config ?E ?s ''app'' ''default'' = load_config ?W ?s ''app'' ''default''"
    unfolding p by simp
  with e show ?thesis by blast
qed

text \<open>
  Claim C9. The cache key is the bare concatenation of name, underscore and environment,
  and it is not injective: \<^verbatim>\<open>("a_b", "c")\<close> and \<^verbatim>\<open>("a", "b_c")\<close> share a key. Whenever two
  pairs share a key and \<open>load_config\<close> has succeeded for one, \<open>load_config\<close> for the other
  returns the same cached value and leaves the loader as it was (nothing opened, nothing
  logged), on any file system. Resolved from disk the two pairs of the example differ: in a
  directory that holds only \<^verbatim>\<open>a.yaml\<close>, \<^verbatim>\<open>("a", "b_c")\<close> falls back to that file while
  \<^verbatim>\<open>("a_b", "c")\<close> is not found.
\<close>

theorem cache_key_collision:
  "cache_key ''a_b'' ''c'' = cache_key ''a'' ''b_c'' \<and>
   (\<forall>W W' s s1 v n e n' e'.
      cache_key n e = cache_key n' e' \<and> load_config W s n e = (Inr v, s1) \<longrightarrow>
      load_config W' s1 n' e' = (Inr v, s1)) \<and>
   fst (load_config (fixture_world [(''cfg/a.yaml'', ''base_url: http://all'')])
          (new_config_loader config_loader_file (Some ''cfg'')) ''a'' ''b_c'') =
     Inr (PDict [(''base_url'', PStr ''http://all'')]) \<and>
   fst (load_config (fixture_world [(''cfg/a.yaml'', ''base_url: http://all'')])
          (new_config_loader config_loader_file (Some ''cfg'')) ''a_b'' ''c'') =
     Inl (FileNotFoundError ''Configuration file not found for a_b (c)'')"
proof (intro conjI allI impI)
  show "fst (load_config (fixture_world [(''cfg/a.yaml'', ''base_url: http://all'')])
          (new_config_loader config_loader_file (Some ''cfg'')) ''a'' ''b_c'') =
     Inr (PDict [(''base_url'', PStr ''http://all'')])"
    by code_simp
next
  show "fst (load_config (fixture_world [(''cfg/a.yaml'', ''base_url: http://all'')])
          (new_config_loader config_loader_file (Some ''cfg'')) ''a_b'' ''c'') =
     Inl (FileNotFoundError ''Configuration file not found for a_b (c)'')"
    by code_simp
next
  show "cache_key ''a_b'' ''c'' = cache_key ''a'' ''b_c''"
    by (simp add: cache_key_def)
next
  fix W W' s s1 v n e n' e'
  assume h: "cache_key n e = cache_key n' e' \<and> load_config W s n e = (Inr v, s1)"
  then have "config_cache s1 (cache_key n e) = Some v"
    by (intro load_config_success_cached[of W s n e v s1]) simp
  with h have "config_cache s1 (cache_key n' e') = Some v" by simp
  then show "load_config W' s1 n' e' = (Inr v, s1)"
    by (rule load_config_cache_hit)
qed

text \<open>
  After \<^verbatim>\<open>("a_b", "c")\<close> was loaded from \<^verbatim>\<open>a_b_c.yaml\<close>, the pair \<^verbatim>\<open>("a", "b_c")\<close> gets that
  value although the directory now holds only \<^verbatim>\<open>a.yaml\<close>, from which a new loader would
  have answered it.
\<close>

theorem cache_key_collision_witness:
  "cache_key ''a_b'' ''c'' = cache_key ''a'' ''b_c'' \<and>
   fst (load_config (fixture_world [(''cfg/a_b_c.yaml'', ''base_url: http://dev'')])
          (new_config_loader config_loader_file (Some ''cfg'')) ''a_b'' ''c'') =
     Inr (PDict [(''base_url'', PStr ''http://dev'')]) \<and>
   load_config (fixture_world [(''cfg/a.yaml'', ''base_url: http://all'')])
     (snd (load_config (fixture_world [(''cfg/a_b_c.yaml'', ''base_url: http://dev'')])
             (new_config_loader config_loader_file (Some ''cfg'')) ''a_b'' ''c'')) ''a'' ''b_c'' =
     (Inr (PDict [(''base_url'', PStr ''http://dev'')]),
      snd (load_config (fixture_world [(''cfg/a_b_c.yaml'', ''base_url: http://dev'')])
             (new_config_loader config_loader_file (Some ''cfg'')) ''a_b'' ''c'')) \<and>
   fst (load_config (fixture_world [(''cfg/a.yaml'', ''base_url: http://all'')])
          (new_config_loader config_loader_file (Some ''cfg'')) ''a'' ''b_c'') =
     Inr (PDict [(''base_url'', PStr ''http://all'')]) \<and>
   fst (load_config (fixture_world [(''cfg/a.yaml'', ''base_url: http://all'')])
          (new_config_loader config_loader_file (Some ''cfg'')) ''a_b'' ''c'') =
     Inl (FileNotFoundError ''Configuration file not found for a_b (c)'')"
proof -
  let ?W = "fixture_world [(''cfg/a_b_c.yaml'', ''base_url: http://dev'')]"
  let ?V = "fixture_world [(''cfg/a.yaml'', ''base_url: http://all'')]"
  let ?s = "new_config_loader config_loader_file (Some ''cfg'')"
  let ?v = "PDict [(''base_url'', PStr ''http://dev'')]"
  have k: "cache_key ''a_b'' ''c'' = cache_key ''a'' ''b_c''"
    by (simp add: cache_key_def)
  have f: "fst (load_config ?W ?s ''a_b'' ''c'') = Inr ?v"
    by code_simp
  then have h: "load_config ?W ?s ''a_b'' ''c'' = (Inr ?v, snd (load_config ?W ?s ''a_b'' ''c''))"
    by (simp add: prod_eq_iff)
  from cache_key_collision k h
  have c: "load_config ?V (snd (load_config ?W ?s ''a_b'' ''c'')) ''a'' ''b_c'' =
           (Inr ?v, snd (load_config ?W ?s ''a_b'' ''c''))"
    by blast
  from cache_key_collision
  have d: "fst (load_config ?V ?s ''a'' ''b_c'') = Inr (PDict [(''base_url'', PStr ''http://all'')])"
    and n: "fst (load_config ?V ?s ''a_b'' ''c'') =
            Inl (FileNotFoundError ''Configuration file not found for a_b (c)'')"
    by blast+
  from k f c d n show ?thesis by blast
qed

text \<open>
  A load that fails caches nothing. A malformed \<^verbatim>\<open>app_dev.json\<close> is opened by each of two
  calls for the same pair, so the file is read twice.
\<close>

theorem load_config_failed_load_read_again_counterexample:
  "fst (load_config (fixture_world [(''cfg/app_dev.json'', ''not json'')])
          (new_config_loader config_loader_file (Some ''cfg'')) ''app'' ''dev'') =
     Inl (LibraryError ''Expecting value: line 1 column 1 (char 0)'') \<and>
   opened (run_loads (new_config_loader config_loader_file (Some ''cfg''))
             [(fixture_world [(''cfg/app_dev.json'', ''not json'')], ''app'', ''dev''),
              (fixture_world [(''cfg/app_dev.json'', ''not json'')], ''app'', ''dev'')]) =
     [''cfg/app_dev.json'', ''cfg/app_dev.json'']"
  by code_simp

text \<open>
  A load changes the instance only by appending to its log and to the list of opened
  paths, and what it appends does not depend on what was logged or opened before.
\<close>

lemma cl_load_yaml_frame:
  "\<exists>r ls ps. \<forall>t. cl_load_yaml W t p =
     (r, t\<lparr>logged := logged t @ ls, opened := opened t @ ps\<rparr>)"
proof (cases "open_file W p")
  case (Inl x)
  then have "\<forall>t. cl_load_yaml W t p =
      (Inl x, t\<lparr>logged := logged t @
                  [(ERROR, ''Failed to load YAML configuration from '' @ p @ '': '' @ str_exn x)],
                 opened := opened t @ []\<rparr>)"
    by (simp add: cl_load_yaml_def cl_log_def)
  then show ?thesis by blast
next
  case (Inr c)
  show ?thesis
  proof (cases "yaml_safe_load W p c")
    case (Inl m)
    with Inr have "\<forall>t. cl_load_yaml W t p =
        (Inl (LibraryError m),
         t\<lparr>logged := logged t @
                [(ERROR, ''Failed to load YAML configuration from '' @ p @ '': '' @ m)],
           opened := opened t @ [p]\<rparr>)"
      by (simp add: cl_load_yaml_def cl_log_def)
    then show ?thesis by blast
  next
    case (Inr v)
    with \<open>open_file W p = Inr c\<close> have "\<forall>t. cl_load_yaml W t p =
        (Inr v, t\<lparr>logged := logged t @ [(INFO, ''Loaded YAML configuration from '' @ p)],
                  opened := opened t @ [p]\<rparr>)"
      by (simp add: cl_load_yaml_def cl_log_def)
    then show ?thesis by blast
  qed
qed

lemma cl_load_json_frame:
  "\<exists>r ls ps. \<forall>t. cl_load_json W t p =
     (r, t\<lparr>logged := logged t @ ls, opened := opened t @ ps\<rparr>)"
proof (cases "open_file W p")
  case (Inl x)
  then have "\<forall>t. cl_load_json W t p =
      (Inl x, t\<lparr>logged := logged t @
                  [(ERROR, ''Failed to load JSON configuration from '' @ p @ '': '' @ str_exn x)],
                 opened := opened t @ []\<rparr>)"
    by (simp add: cl_load_json_def cl_log_def)
  then show ?thesis by blast
next
  case (Inr c)
  show ?thesis
  proof (cases "json_load W p c")
    case (Inl m)
    with Inr have "\<forall>t. cl_load_json W t p =
        (Inl (LibraryError m),
         t\<lparr>logged := logged t @
                [(ERROR, ''Failed to load JSON configuration from '' @ p @ '': '' @ m)],
           opened := opened t @ [p]\<rparr>)"
      by (simp add: cl_load_json_def cl_log_def)
    then show ?thesis by blast
  next
    case (Inr v)
    with \<open>open_file W p = Inr c\<close> have "\<forall>t. cl_load_json W t p =
        (Inr v, t\<lparr>logged := logged t @ [(INFO, ''Loaded JSON configuration from '' @ p)],
                  opened := opened t @ [p]\<rparr>)"
      by (simp add: cl_load_json_def cl_log_def)
    then show ?thesis by blast
  qed
qed

lemma try_load_config_frame:
  "\<exists>r ls ps. \<forall>t. config_dir t = dir \<longrightarrow>
     try_load_config W t n = (r, t\<lparr>logged := logged t @ ls, opened := opened t @ ps\<rparr>)"
proof -
  let ?yaml = "path_join dir (n @ ''.yaml'')"
  let ?yml = "path_join dir (n @ ''.yml'')"
  let ?json = "path_join dir (n @ ''.json'')"
  consider (yaml) "path_exists W ?yaml"
    | (yml) "\<not> path_exists W ?yaml" "path_exists W ?yml"
    | (json) "\<not> path_exists W ?yaml" "\<not> path_exists W ?yml" "path_exists W ?json"
    | (none) "\<not> path_exists W ?yaml" "\<not> path_exists W ?yml" "\<not> path_exists W ?json"
    by blast
  then show ?thesis
  proof cases
    case yaml
    from cl_load_yaml_frame[of W ?yaml] obtain r ls ps where
      "\<forall>t. cl_load_yaml W t ?yaml = (r, t\<lparr>logged := logged t @ ls, opened := opened t @ ps\<rparr>)"
      by blast
    with yaml have "\<forall>t. config_dir t = dir \<longrightarrow>
        try_load_config W t n = (r, t\<lparr>logged := logged t @ ls, opened := opened t @ ps\<rparr>)"
      by (simp add: try_load_config_yaml)
    then show ?thesis by blast
  next
    case yml
    from cl_load_yaml_frame[of W ?yml] obtain r ls ps where
      "\<forall>t. cl_load_yaml W t ?yml = (r, t\<lparr>logged := logged t @ ls, opened := opened t @ ps\<rparr>)"
      by blast
    with yml have "\<forall>t. config_dir t = dir \<longrightarrow>
        try_load_config W t n = (r, t\<lparr>logged := logged t @ ls, opened := opened t @ ps\<rparr>)"
      by (simp add: try_load_config_yml)
    then show ?thesis by blast
  next
    case json
    from cl_load_json_frame[of W ?json] obtain r ls ps where
      "\<forall>t. cl_load_json W t ?json = (r, t\<lparr>logged := logged t @ ls, opened := opened t @ ps\<rparr>)"
      by blast
    with json have "\<forall>t. config_dir t = dir \<longrightarrow>
        try_load_config W t n = (r, t\<lparr>logged := logged t @ ls, opened := opened t @ ps\<rparr>)"
      by (simp add: try_load_config_json)
    then show ?thesis by blast
  next
    case none
    then have "\<forall>t. config_dir t = dir \<longrightarrow>
        try_load_config W t n = (Inr PNone, t\<lparr>logged := logged t @ [], opened := opened t @ []\<rparr>)"
      by (simp add: try_load_config_none)
    then show ?thesis by blast
  qed
qed

lemma load_config_failure_frame:
  assumes fail: "load_config W s n e = (Inl x, s1)"
  shows "\<exists>ls ps. \<forall>t. config_dir t = config_dir s \<and> config_cache t (cache_key n e) = None \<longrightarrow>
           load_config W t n e =
             (Inl x, t\<lparr>logged := logged t @ ls, opened := opened t @ ps\<rparr>)"
proof -
  from fail have miss: "config_cache s (cache_key n e) = None"
    by (cases "config_cache s (cache_key n e)") (simp_all add: load_config_def)
  from try_load_config_frame[of "config_dir s" W "n @ ''_'' @ e"] obtain r1 ls1 ps1 where
    f1: "\<And>t. config_dir t = config_dir s \<Longrightarrow> try_load_config W t (n @ ''_'' @ e) =
           (r1, t\<lparr>logged := logged t @ ls1, opened := opened t @ ps1\<rparr>)"
    by blast
  from try_load_config_frame[of "config_dir s" W n] obtain r2 ls2 ps2 where
    f2: "\<And>t. config_dir t = config_dir s \<Longrightarrow> try_load_config W t n =
           (r2, t\<lparr>logged := logged t @ ls2, opened := opened t @ ps2\<rparr>)"
    by blast
  have f2': "try_load_config W (t\<lparr>logged := logged t @ ls1, opened := opened t @ ps1\<rparr>) n =
               (r2, t\<lparr>logged := logged t @ ls1 @ ls2, opened := opened t @ ps1 @ ps2\<rparr>)"
    if "config_dir t = config_dir s" for t
    using f2[of "t\<lparr>logged := logged t @ ls1, opened := opened t @ ps1\<rparr>"] that by simp
  show ?thesis
  proof (cases r1)
    case (Inl y)
    have all: "load_config W t n e =
             (Inl y, t\<lparr>logged := logged t @ ls1, opened := opened t @ ps1\<rparr>)"
      if "config_dir t = config_dir s" "config_cache t (cache_key n e) = None" for t
      using that f1[of t] Inl by (simp add: load_config_def)
    from all[of s] miss fail have "x = y" by simp
    with all show ?thesis by blast
  next
    case (Inr d)
    show ?thesis
    proof (cases "d = PNone \<and> e \<noteq> ''default''")
      case False
      have all: "load_config W t n e =
             (if d = PNone
              then (Inl (FileNotFoundError (''Configuration file not found for '' @ n @
                                           '' ('' @ e @ '')'')),
                    t\<lparr>logged := logged t @ ls1, opened := opened t @ ps1\<rparr>)
              else (Inr d, t\<lparr>logged := logged t @ ls1, opened := opened t @ ps1,
                             config_cache := (config_cache t)(cache_key n e \<mapsto> d)\<rparr>))"
        if "config_dir t = config_dir s" "config_cache t (cache_key n e) = None" for t
        using that f1[of t] Inr False by (auto simp: load_config_def)
      from all[of s] miss fail have d: "d = PNone"
        and x: "x = FileNotFoundError (''Configuration file not found for '' @ n @
                                      '' ('' @ e @ '')'')"
        by (auto split: if_splits)
      from all d x show ?thesis by auto
    next
      case True
      show ?thesis
      proof (cases r2)
        case (Inl y)
        have all: "load_config W t n e =
               (Inl y, t\<lparr>logged := logged t @ ls1 @ ls2, opened := opened t @ ps1 @ ps2\<rparr>)"
          if "config_dir t = config_dir s" "config_cache t (cache_key n e) = None" for t
          using that f1[of t] f2'[of t] \<open>r1 = Inr d\<close> True Inl by (simp add: load_config_def)
        from all[of s] miss fail have "x = y" by simp
        with all show ?thesis by blast
      next
        case (Inr d2)
        have all: "load_config W t n e =
             (if d2 = PNone
              then (Inl (FileNotFoundError (''Configuration file not found for '' @ n @
                                           '' ('' @ e @ '')'')),
                    t\<lparr>logged := logged t @ ls1 @ ls2, opened := opened t @ ps1 @ ps2\<rparr>)
              else (Inr d2, t\<lparr>logged := logged t @ ls1 @ ls2, opened := opened t @ ps1 @ ps2,
                              config_cache := (config_cache t)(cache_key n e \<mapsto> d2)\<rparr>))"
          if "config_dir t = config_dir s" "config_cache t (cache_key n e) = None" for t
          using that f1[of t] f2'[of t] \<open>r1 = Inr d\<close> True Inr by (simp add: load_config_def)
        from all[of s] miss fail have d: "d2 = PNone"
          and x: "x = FileNotFoundError (''Configuration file not found for '' @ n @
                                        '' ('' @ e @ '')'')"
          by (auto split: if_splits)
        from all d x show ?thesis by auto
      qed
    qed
  qed
qed

text \<open>
  Claim C1, amended. If a call of \<open>load_config\<close> for a pair succeeds, the value it
  returns is the one it leaves in the cache under the pair's key, and every later call for
  that pair on the same instance returns that cached value and leaves the instance as it
  was (no file opened, nothing logged), whatever calls came between and whatever the file
  system holds by then. If the call fails, it caches nothing: the cache is as before, the
  instance differs only by the log records and opened paths the call appended, and the
  next call for the pair on the same file system fails in the same way and opens the same
  files once more.
\<close>

theorem load_config_caches_successes_only:
  "(load_config W s config_name environment = (Inr v, s1) \<longrightarrow>
      config_cache s1 (cache_key config_name environment) = Some v \<and>
      (\<forall>W' calls. load_config W' (run_loads s1 calls) config_name environment =
                     (Inr v, run_loads s1 calls))) \<and>
   (load_config W s config_name environment = (Inl x, s1) \<longrightarrow>
      config_cache s1 = config_cache s \<and>
      (\<exists>ls ps. s1 = s\<lparr>logged := logged s @ ls, opened := opened s @ ps\<rparr> \<and>
         load_config W s1 config_name environment =
           (Inl x, s1\<lparr>logged := logged s1 @ ls, opened := opened s1 @ ps\<rparr>)))"
proof (intro conjI impI)
  assume ok: "load_config W s config_name environment = (Inr v, s1)"
  then show stored: "config_cache s1 (cache_key config_name environment) = Some v"
    by (rule load_config_success_cached)
  show "\<forall>W' calls. load_config W' (run_loads s1 calls) config_name environment =
                     (Inr v, run_loads s1 calls)"
  proof (intro allI)
    fix W' calls
    from stored
    have "config_cache (run_loads s1 calls) (cache_key config_name environment) = Some v"
      by (rule run_loads_cache_mono)
    then show "load_config W' (run_loads s1 calls) config_name environment =
               (Inr v, run_loads s1 calls)"
      by (rule load_config_cache_hit)
  qed
next
  assume fail: "load_config W s config_name environment = (Inl x, s1)"
  then have miss: "config_cache s (cache_key config_name environment) = None"
    by (cases "config_cache s (cache_key config_name environment)")
       (simp_all add: load_config_def)
  from load_config_failure_frame[OF fail] obtain ls ps where
    fr: "\<And>t. config_dir t = config_dir s \<Longrightarrow>
           config_cache t (cache_key config_name environment) = None \<Longrightarrow>
           load_config W t config_name environment =
             (Inl x, t\<lparr>logged := logged t @ ls, opened := opened t @ ps\<rparr>)"
    by blast
  from fr[of s] miss fail
  have s1: "s1 = s\<lparr>logged := logged s @ ls, opened := opened s @ ps\<rparr>" by simp
  then show "config_cache s1 = config_cache s" by simp
  from s1 miss have "config_dir s1 = config_dir s"
    and "config_cache s1 (cache_key config_name environment) = None"
    by simp_all
  then have "load_config W s1 config_name environment =
             (Inl x, s1\<lparr>logged := logged s1 @ ls, opened := opened s1 @ ps\<rparr>)"
    by (rule fr)
  with s1 show "\<exists>ls ps. s1 = s\<lparr>logged := logged s @ ls, opened := opened s @ ps\<rparr> \<and>
         load_config W s1 config_name environment =
           (Inl x, s1\<lparr>logged := logged s1 @ ls, opened := opened s1 @ ps\<rparr>)"
    by blast
qed

text \<open>
  The \<^verbatim>\<open>dev\<close> configuration is still served after two other calls and after its file
  has gone. A malformed \<^verbatim>\<open>app_dev.json\<close> leaves the cache empty.
\<close>

theorem load_config_caches_successes_only_witness:
  "fst (load_config (fixture_world [(''cfg/app_dev.yaml'', ''base_url: http://dev'')])
          (new_config_loader config_loader_file (Some ''cfg'')) ''app'' ''dev'') =
     Inr (PDict [(''base_url'', PStr ''http://dev'')]) \<and>
   load_config (fixture_world [])
     (run_loads (snd (load_config (fixture_world [(''cfg/app_dev.yaml'', ''base_url: http://dev'')])
                        (new_config_loader config_loader_file (Some ''cfg'')) ''app'' ''dev''))
        [(fixture_world [(''cfg/app.yaml'', ''base_url: http://all'')], ''app'', ''prod''),
         (fixture_world [], ''app'', ''test'')])
     ''app'' ''dev'' =
     (Inr (PDict [(''base_url'', PStr ''http://dev'')]),
      run_loads (snd (load_config (fixture_world [(''cfg/app_dev.yaml'', ''base_url: http://dev'')])
                        (new_config_loader config_loader_file (Some ''cfg'')) ''app'' ''dev''))
        [(fixture_world [(''cfg/app.yaml'', ''base_url: http://all'')], ''app'', ''prod''),
         (fixture_world [], ''app'', ''test'')]) \<and>
   fst (load_config (fixture_world [(''cfg/app_dev.json'', ''not json'')])
          (new_config_loader config_loader_file (Some ''cfg'')) ''app'' ''dev'') =
     Inl (LibraryError ''Expecting value: line 1 column 1 (char 0)'') \<and>
   config_cache (snd (load_config (fixture_world [(''cfg/app_dev.json'', ''not json'')])
                        (new_config_loader config_loader_file (Some ''cfg'')) ''app'' ''dev'')) =
     config_cache (new_config_loader config_loader_file (Some ''cfg''))"
proof -
  let ?W = "fixture_world [(''cfg/app_dev.yaml'', ''base_url: http://dev'')]"
  let ?B = "fixture_world [(''cfg/app_dev.json'', ''not json'')]"
  let ?s = "new_config_loader config_loader_file (Some ''cfg'')"
  let ?v = "PDict [(''base_url'', PStr ''http://dev'')]"
  let ?x = "LibraryError ''Expecting value: line 1 column 1 (char 0)''"
  have f: "fst (load_config ?W ?s ''app'' ''dev'') = Inr ?v"
    by code_simp
  then have h: "load_config ?W ?s ''app'' ''dev'' = (Inr ?v, snd (load_config ?W ?s ''app'' ''dev''))"
    by (simp add: prod_eq_iff)
  have g: "fst (load_config ?B ?s ''app'' ''dev'') = Inl ?x"
    by code_simp
  then have k: "load_config ?B ?s ''app'' ''dev'' = (Inl ?x, snd (load_config ?B ?s ''app'' ''dev''))"
    by (simp add: prod_eq_iff)
  from load_config_caches_successes_only[of ?W ?s "''app''" "''dev''" ?v
      "snd (load_config ?W ?s ''app'' ''dev'')"] h
  have a: "load_config (fixture_world [])
     (run_loads (snd (load_config ?W ?s ''app'' ''dev''))
        [(fixture_world [(''cfg/app.yaml'', ''base_url: http://all'')], ''app'', ''prod''),
         (fixture_world [], ''app'', ''test'')])
     ''app'' ''dev'' =
     (Inr ?v,
      run_loads (snd (load_config ?W ?s ''app'' ''dev''))
        [(fixture_world [(''cfg/app.yaml'', ''base_url: http://all'')], ''app'', ''prod''),
         (fixture_world [], ''app'', ''test'')])"
    by blast
  from load_config_caches_successes_only[of ?B ?s "''app''" "''dev''" _
      "snd (load_config ?B ?s ''app'' ''dev'')" ?x] k
  have b: "config_cache (snd (load_config ?B ?s ''app'' ''dev'')) = config_cache ?s"
    by blast
  from f a g b show ?thesis by blast
qed

text \<open>
  Claim C2. For an environment other than \<^verbatim>\<open>default\<close>, with no file
  \<^verbatim>\<open>{name}_{environment}.(yaml|yml|json)\<close> and an existing \<^verbatim>\<open>{name}.(yaml|yml|json)\<close>,
  \<open>load_config\<close> is to return the parsed content of the default file. The code misses
  the default file whose content parses to \<^verbatim>\<open>None\<close>: with only \<^verbatim>\<open>app.json\<close> present,
  holding the JSON text \<^verbatim>\<open>null\<close>, the file is found, opened and parsed, and the call
  still ends with the not-found error.
\<close>

theorem load_config_null_default_not_found:
  "path_exists (fixture_world [(''cfg/app.json'', ''null'')]) ''cfg/app.json'' \<and>
   \<not> path_exists (fixture_world [(''cfg/app.json'', ''null'')]) ''cfg/app_dev.yaml'' \<and>
   \<not> path_exists (fixture_world [(''cfg/app.json'', ''null'')]) ''cfg/app_dev.yml'' \<and>
   \<not> path_exists (fixture_world [(''cfg/app.json'', ''null'')]) ''cfg/app_dev.json'' \<and>
   json_load (fixture_world [(''cfg/app.json'', ''null'')]) ''cfg/app.json'' ''null'' = Inr PNone \<and>
   fst (load_config (fixture_world [(''cfg/app.json'', ''null'')])
          (new_config_loader config_loader_file (Some ''cfg'')) ''app'' ''dev'') =
     Inl (FileNotFoundError ''Configuration file not found for app (dev)'') \<and>
   opened (snd (load_config (fixture_world [(''cfg/app.json'', ''null'')])
                  (new_config_loader config_loader_file (Some ''cfg'')) ''app'' ''dev'')) = [''cfg/app.json'']"
  by code_simp

text \<open>
  Everywhere else the fallback does what is asked of it. For an environment other than
  \<^verbatim>\<open>default\<close>, on a cache miss with no
  file \<^verbatim>\<open>{name}_{environment}.yaml\<close>, \<^verbatim>\<open>.yml\<close> or \<^verbatim>\<open>.json\<close>: if the first existing one
  of \<^verbatim>\<open>{name}.yaml\<close>, \<^verbatim>\<open>{name}.yml\<close>, \<^verbatim>\<open>{name}.json\<close> parses to a value other than
  \<^verbatim>\<open>None\<close>, \<open>load_config\<close> returns that value, caches it under the pair's key and has
  opened that file only; if none of the three exists, it fails with the not-found error
  whose message carries the name and the environment, and the loader is unchanged.
\<close>

theorem load_config_fallback_to_default:
  fixes W :: world and s :: config_loader and config_name environment :: string
  assumes env: "environment \<noteq> ''default''"
    and miss: "config_cache s (cache_key config_name environment) = None"
    and no_yaml: "\<not> path_exists W
                     (path_join (config_dir s) (config_name @ ''_'' @ environment @ ''.yaml''))"
    and no_yml: "\<not> path_exists W
                    (path_join (config_dir s) (config_name @ ''_'' @ environment @ ''.yml''))"
    and no_json: "\<not> path_exists W
                     (path_join (config_dir s) (config_name @ ''_'' @ environment @ ''.json''))"
  shows
    "(\<forall>p parse c v.
        ((p = path_join (config_dir s) (config_name @ ''.yaml'') \<and> parse = yaml_safe_load W) \<or>
         (p = path_join (config_dir s) (config_name @ ''.yml'') \<and> parse = yaml_safe_load W \<and>
          \<not> path_exists W (path_join (config_dir s) (config_name @ ''.yaml''))) \<or>
         (p = path_join (config_dir s) (config_name @ ''.json'') \<and> parse = json_load W \<and>
          \<not> path_exists W (path_join (config_dir s) (config_name @ ''.yaml'')) \<and>
          \<not> path_exists W (path_join (config_dir s) (config_name @ ''.yml'')))) \<and>
        files W p = Some c \<and> parse p c = Inr v \<and> v \<noteq> PNone \<longrightarrow>
        fst (load_config W s config_name environment) = Inr v \<and>
        config_cache (snd (load_config W s config_name environment))
          (cache_key config_name environment) = Some v \<and>
        opened (snd (load_config W s config_name environment)) = opened s @ [p]) \<and>
     (\<not> path_exists W (path_join (config_dir s) (config_name @ ''.yaml'')) \<and>
      \<not> path_exists W (path_join (config_dir s) (config_name @ ''.yml'')) \<and>
      \<not> path_exists W (path_join (config_dir s) (config_name @ ''.json'')) \<longrightarrow>
        load_config W s config_name environment =
          (Inl (FileNotFoundError
                  (''Configuration file not found for '' @ config_name @
                   '' ('' @ environment @ '')'')), s))"
proof -
  have first: "try_load_config W s (config_name @ ''_'' @ environment) = (Inr PNone, s)"
    using no_yaml no_yml no_json by (intro try_load_config_none) simp_all
  have found: "fst (load_config W s config_name environment) = Inr v \<and>
        config_cache (snd (load_config W s config_name environment))
          (cache_key config_name environment) = Some v \<and>
        opened (snd (load_config W s config_name environment)) = opened s @ [p]"
    if t: "try_load_config W s config_name = (Inr v, s2)" and o: "opened s2 = opened s @ [p]"
      and v: "v \<noteq> PNone" for v s2 p
    using load_config_miss_second_found[OF miss env first t v] o by simp
  show ?thesis
  proof (intro conjI allI impI)
    fix p parse c v
    assume h: "((p = path_join (config_dir s) (config_name @ ''.yaml'') \<and> parse = yaml_safe_load W) \<or>
         (p = path_join (config_dir s) (config_name @ ''.yml'') \<and> parse = yaml_safe_load W \<and>
          \<not> path_exists W (path_join (config_dir s) (config_name @ ''.yaml''))) \<or>
         (p = path_join (config_dir s) (config_name @ ''.json'') \<and> parse = json_load W \<and>
          \<not> path_exists W (path_join (config_dir s) (config_name @ ''.yaml'')) \<and>
          \<not> path_exists W (path_join (config_dir s) (config_name @ ''.yml'')))) \<and>
        files W p = Some c \<and> parse p c = Inr v \<and> v \<noteq> PNone"
    then have ex: "path_exists W p" by (simp add: path_exists_def)
    from h consider
      (yaml) "p = path_join (config_dir s) (config_name @ ''.yaml'')" "parse = yaml_safe_load W"
    | (yml) "p = path_join (config_dir s) (config_name @ ''.yml'')" "parse = yaml_safe_load W"
            "\<not> path_exists W (path_join (config_dir s) (config_name @ ''.yaml''))"
    | (json) "p = path_join (config_dir s) (config_name @ ''.json'')" "parse = json_load W"
            "\<not> path_exists W (path_join (config_dir s) (config_name @ ''.yaml''))"
            "\<not> path_exists W (path_join (config_dir s) (config_name @ ''.yml''))"
      by (auto simp: path_exists_def)
    then have "\<exists>s2. try_load_config W s config_name = (Inr v, s2) \<and> opened s2 = opened s @ [p]"
    proof cases
      case yaml
      with ex have "try_load_config W s config_name = cl_load_yaml W s p"
        by (simp add: try_load_config_yaml)
      with h yaml show ?thesis by (simp add: cl_load_yaml_ok)
    next
      case yml
      with ex have "try_load_config W s config_name = cl_load_yaml W s p"
        by (simp add: try_load_config_yml)
      with h yml show ?thesis by (simp add: cl_load_yaml_ok)
    next
      case json
      with ex have "try_load_config W s config_name = cl_load_json W s p"
        by (simp add: try_load_config_json)
      with h json show ?thesis by (simp add: cl_load_json_ok)
    qed
    then obtain s2 where t: "try_load_config W s config_name = (Inr v, s2)"
      and o: "opened s2 = opened s @ [p]" by blast
    from h have v: "v \<noteq> PNone" by simp
    from found[OF t o v]
    show "fst (load_config W s config_name environment) = Inr v"
      and "config_cache (snd (load_config W s config_name environment))
             (cache_key config_name environment) = Some v"
      and "opened (snd (load_config W s config_name environment)) = opened s @ [p]"
      by simp_all
  next
    assume "\<not> path_exists W (path_join (config_dir s) (config_name @ ''.yaml'')) \<and>
      \<not> path_exists W (path_join (config_dir s) (config_name @ ''.yml'')) \<and>
      \<not> path_exists W (path_join (config_dir s) (config_name @ ''.json''))"
    then have "try_load_config W s config_name = (Inr PNone, s)"
      by (intro try_load_config_none) (simp_all add: path_exists_def)
    then show "load_config W s config_name environment =
          (Inl (FileNotFoundError
                  (''Configuration file not found for '' @ config_name @
                   '' ('' @ environment @ '')'')), s)"
      by (rule load_config_miss_second_none[OF miss env first])
  qed
qed

text \<open>
  \<^verbatim>\<open>app.yml\<close> answers for the environment \<^verbatim>\<open>dev\<close>, and a directory without any
  \<^verbatim>\<open>app\<close> file gives the not-found error.
\<close>

theorem load_config_fallback_to_default_witness:
  "fst (load_config (fixture_world [(''cfg/app.json'', ''{}''), (''cfg/app.yml'', ''base_url: http://all'')])
          (new_config_loader config_loader_file (Some ''cfg'')) ''app'' ''dev'') =
     Inr (PDict [(''base_url'', PStr ''http://all'')]) \<and>
   opened (snd (load_config
          (fixture_world [(''cfg/app.json'', ''{}''), (''cfg/app.yml'', ''base_url: http://all'')])
          (new_config_loader config_loader_file (Some ''cfg'')) ''app'' ''dev'')) = [''cfg/app.yml''] \<and>
   load_config (fixture_world [(''cfg/web.yaml'', ''base_url: http://all'')])
     (new_config_loader config_loader_file (Some ''cfg'')) ''app'' ''dev'' =
     (Inl (FileNotFoundError ''Configuration file not found for app (dev)''),
      new_config_loader config_loader_file (Some ''cfg''))"
proof -
  let ?W = "fixture_world [(''cfg/app.json'', ''{}''), (''cfg/app.yml'', ''base_url: http://all'')]"
  let ?V = "fixture_world [(''cfg/web.yaml'', ''base_url: http://all'')]"
  let ?s = "new_config_loader config_loader_file (Some ''cfg'')"
  let ?v = "PDict [(''base_url'', PStr ''http://all'')]"
  have p: "path_join (config_dir ?s) (''app'' @ ''_'' @ ''dev'' @ ''.yaml'') = ''cfg/app_dev.yaml''"
          "path_join (config_dir ?s) (''app'' @ ''_'' @ ''dev'' @ ''.yml'') = ''cfg/app_dev.yml''"
          "path_join (config_dir ?s) (''app'' @ ''_'' @ ''dev'' @ ''.json'') = ''cfg/app_dev.json''"
          "path_join (config_dir ?s) (''app'' @ ''.yaml'') = ''cfg/app.yaml''"
          "path_join (config_dir ?s) (''app'' @ ''.yml'') = ''cfg/app.yml''"
          "path_join (config_dir ?s) (''app'' @ ''.json'') = ''cfg/app.json''"
    by (simp_all add: path_join_def new_config_loader_def)
  have env: "''dev'' \<noteq> ''default''" by simp
  have miss: "config_cache ?s (cache_key ''app'' ''dev'') = None"
    by (simp add: new_config_loader_def)
  have nW: "\<not> path_exists ?W (path_join (config_dir ?s) (''app'' @ ''_'' @ ''dev'' @ ''.yaml''))"
           "\<not> path_exists ?W (path_join (config_dir ?s) (''app'' @ ''_'' @ ''dev'' @ ''.yml''))"
           "\<not> path_exists ?W (path_join (config_dir ?s) (''app'' @ ''_'' @ ''dev'' @ ''.json''))"
    unfolding p by (simp_all add: path_exists_def fixture_world_def)
  have nV: "\<not> path_exists ?V (path_join (config_dir ?s) (''app'' @ ''_'' @ ''dev'' @ ''.yaml''))"
           "\<not> path_exists ?V (path_join (config_dir ?s) (''app'' @ ''_'' @ ''dev'' @ ''.yml''))"
           "\<not> path_exists ?V (path_join (config_dir ?s) (''app'' @ ''_'' @ ''dev'' @ ''.json''))"
    unfolding p by (simp_all add: path_exists_def fixture_world_def)
  have sel: "files ?W ''cfg/app.yaml'' = None \<and>
             files ?W ''cfg/app.yml'' = Some ''base_url: http://all'' \<and>
             yaml_safe_load ?W ''cfg/app.yml'' ''base_url: http://all'' = Inr ?v \<and> ?v \<noteq> PNone"
    by (simp add: fixture_world_def fixture_yaml_def)
  have none: "files ?V ''cfg/app.yaml'' = None \<and> files ?V ''cfg/app.yml'' = None \<and>
              files ?V ''cfg/app.json'' = None"
    by (simp add: fixture_world_def)
  note TW = load_config_fallback_to_default[OF env miss nW, unfolded p]
  note TV = load_config_fallback_to_default[OF env miss nV, unfolded p]
  from TW[THEN conjunct1, rule_format,
          of "''cfg/app.yml''" "yaml_safe_load ?W" "''base_url: http://all''" ?v] sel
  have a: "fst (load_config ?W ?s ''app'' ''dev'') = Inr ?v \<and>
           opened (snd (load_config ?W ?s ''app'' ''dev'')) = [''cfg/app.yml'']"
    by (simp add: new_config_loader_def path_exists_def)
  from TV[THEN conjunct2] none
  have b: "load_config ?V ?s ''app'' ''dev'' =
           (Inl (FileNotFoundError ''Configuration file not found for app (dev)''), ?s)"
    by (simp add: path_exists_def)
  from a b show ?thesis by blast
qed

text \<open>
  A malformed \<^verbatim>\<open>browser_dev.json\<close>: the caller receives the exception of the JSON parser
  as it was raised. Its text does not name the file; only the record sent to the logger
  does.
\<close>

theorem load_config_parse_failure_untagged_counterexample:
  "fst (load_config (fixture_world [(''cfg/browser_dev.json'', ''not json'')])
          (new_config_loader config_loader_file (Some ''cfg'')) ''browser'' ''dev'') =
     Inl (LibraryError ''Expecting value: line 1 column 1 (char 0)'') \<and>
   \<not> mentions (str_exn (LibraryError ''Expecting value: line 1 column 1 (char 0)''))
        ''cfg/browser_dev.json'' \<and>
   logged (snd (load_config (fixture_world [(''cfg/browser_dev.json'', ''not json'')])
                  (new_config_loader config_loader_file (Some ''cfg'')) ''browser'' ''dev'')) =
     [(ERROR, ''Failed to load JSON configuration from cfg/browser_dev.json: Expecting value: line 1 column 1 (char 0)'')]"
  by code_simp

text \<open>
  Claim C8, amended. On a cache miss, when the file the search selects (the first existing
  one for \<^verbatim>\<open>{name}_{environment}\<close>, or, with none of those and an environment other than
  \<^verbatim>\<open>default\<close>, the first existing one for \<^verbatim>\<open>{name}\<close>) is malformed, \<open>load_config\<close>
  raises the parser's own exception unchanged: it is not swallowed and not turned into
  the not-found error, and nothing is cached. The file path is attached to the ERROR record
  sent to the logger, not to the exception.
\<close>

theorem load_config_parse_failure_propagates:
  fixes W :: world and s :: config_loader and config_name environment base p kind c m :: string
  assumes miss: "config_cache s (cache_key config_name environment) = None"
    and base: "base = config_name @ ''_'' @ environment \<or>
               (base = config_name \<and> environment \<noteq> ''default'' \<and>
                \<not> path_exists W (path_join (config_dir s) (config_name @ ''_'' @ environment @ ''.yaml'')) \<and>
                \<not> path_exists W (path_join (config_dir s) (config_name @ ''_'' @ environment @ ''.yml'')) \<and>
                \<not> path_exists W (path_join (config_dir s) (config_name @ ''_'' @ environment @ ''.json'')))"
    and sel: "(p = path_join (config_dir s) (base @ ''.yaml'') \<and> parse = yaml_safe_load W \<and>
               kind = ''YAML'') \<or>
              (p = path_join (config_dir s) (base @ ''.yml'') \<and> parse = yaml_safe_load W \<and>
               kind = ''YAML'' \<and> \<not> path_exists W (path_join (config_dir s) (base @ ''.yaml''))) \<or>
              (p = path_join (config_dir s) (base @ ''.json'') \<and> parse = json_load W \<and>
               kind = ''JSON'' \<and> \<not> path_exists W (path_join (config_dir s) (base @ ''.yaml'')) \<and>
               \<not> path_exists W (path_join (config_dir s) (base @ ''.yml'')))"
    and present: "files W p = Some c"
    and bad: "parse p c = Inl m"
  shows "load_config W s config_name environment =
         (Inl (LibraryError m),
          s\<lparr>logged := logged s @
                 [(ERROR, ''Failed to load '' @ kind @ '' configuration from '' @ p @ '': '' @ m)],
            opened := opened s @ [p]\<rparr>)"
proof -
  let ?s' = "s\<lparr>logged := logged s @
                 [(ERROR, ''Failed to load '' @ kind @ '' configuration from '' @ p @ '': '' @ m)],
            opened := opened s @ [p]\<rparr>"
  have ex: "path_exists W p" using present by (simp add: path_exists_def)
  from sel consider
      (yaml) "p = path_join (config_dir s) (base @ ''.yaml'')" "parse = yaml_safe_load W"
             "kind = ''YAML''"
    | (yml) "p = path_join (config_dir s) (base @ ''.yml'')" "parse = yaml_safe_load W"
            "kind = ''YAML''" "\<not> path_exists W (path_join (config_dir s) (base @ ''.yaml''))"
    | (json) "p = path_join (config_dir s) (base @ ''.json'')" "parse = json_load W"
            "kind = ''JSON''" "\<not> path_exists W (path_join (config_dir s) (base @ ''.yaml''))"
            "\<not> path_exists W (path_join (config_dir s) (base @ ''.yml''))"
    by (auto simp: path_exists_def)
  then have t: "try_load_config W s base = (Inl (LibraryError m), ?s')"
  proof cases
    case yaml
    with ex have "try_load_config W s base = cl_load_yaml W s p"
      by (simp add: try_load_config_yaml)
    with present bad yaml show ?thesis by (simp add: cl_load_yaml_bad)
  next
    case yml
    with ex have "try_load_config W s base = cl_load_yaml W s p"
      by (simp add: try_load_config_yml)
    with present bad yml show ?thesis by (simp add: cl_load_yaml_bad)
  next
    case json
    with ex have "try_load_config W s base = cl_load_json W s p"
      by (simp add: try_load_config_json)
    with present bad json show ?thesis by (simp add: cl_load_json_bad)
  qed
  from base show ?thesis
  proof
    assume "base = config_name @ ''_'' @ environment"
    with t show ?thesis by (simp add: load_config_miss_first_raises[OF miss])
  next
    assume b: "base = config_name \<and> environment \<noteq> ''default'' \<and>
                \<not> path_exists W (path_join (config_dir s) (config_name @ ''_'' @ environment @ ''.yaml'')) \<and>
                \<not> path_exists W (path_join (config_dir s) (config_name @ ''_'' @ environment @ ''.yml'')) \<and>
                \<not> path_exists W (path_join (config_dir s) (config_name @ ''_'' @ environment @ ''.json''))"
    then have first: "try_load_config W s (config_name @ ''_'' @ environment) = (Inr PNone, s)"
      by (intro try_load_config_none) (simp_all add: path_exists_def)
    from b have env: "environment \<noteq> ''default''" by simp
    from b t have "try_load_config W s config_name = (Inl (LibraryError m), ?s')" by simp
    then show ?thesis by (rule load_config_miss_second_raises[OF miss env first])
  qed
qed

text \<open>
  A malformed \<^verbatim>\<open>test.yaml\<close>, reached by the fallback for the environment \<^verbatim>\<open>prod\<close>.
\<close>

theorem load_config_parse_failure_propagates_witness:
  "load_config (fixture_world [(''cfg/test.yaml'', ''a: b: c'')])
     (new_config_loader config_loader_file (Some ''cfg'')) ''test'' ''prod'' =
     (Inl (LibraryError (yaml_error_text ''cfg/test.yaml'')),
      (new_config_loader config_loader_file (Some ''cfg''))
        \<lparr>logged := [(ERROR, ''Failed to load YAML configuration from cfg/test.yaml: '' @
                            yaml_error_text ''cfg/test.yaml'')],
         opened := [''cfg/test.yaml'']\<rparr>)"
proof -
  let ?W = "fixture_world [(''cfg/test.yaml'', ''a: b: c'')]"
  let ?s = "new_config_loader config_loader_file (Some ''cfg'')"
  have p: "path_join (config_dir ?s) (''test'' @ ''_'' @ ''prod'' @ ''.yaml'') = ''cfg/test_prod.yaml''"
          "path_join (config_dir ?s) (''test'' @ ''_'' @ ''prod'' @ ''.yml'') = ''cfg/test_prod.yml''"
          "path_join (config_dir ?s) (''test'' @ ''_'' @ ''prod'' @ ''.json'') = ''cfg/test_prod.json''"
          "path_join (config_dir ?s) (''test'' @ ''.yaml'') = ''cfg/test.yaml''"
    by (simp_all add: path_join_def new_config_loader_def)
  have miss: "config_cache ?s (cache_key ''test'' ''prod'') = None"
    by (simp add: new_config_loader_def)
  have base: "''test'' = ''test'' @ ''_'' @ ''prod'' \<or>
               (''test'' = ''test'' \<and> ''prod'' \<noteq> ''default'' \<and>
                \<not> path_exists ?W (path_join (config_dir ?s) (''test'' @ ''_'' @ ''prod'' @ ''.yaml'')) \<and>
                \<not> path_exists ?W (path_join (config_dir ?s) (''test'' @ ''_'' @ ''prod'' @ ''.yml'')) \<and>
                \<not> path_exists ?W (path_join (config_dir ?s) (''test'' @ ''_'' @ ''prod'' @ ''.json'')))"
    unfolding p by (simp add: fixture_world_def path_exists_def)
  have sel: "(''cfg/test.yaml'' = path_join (config_dir ?s) (''test'' @ ''.yaml'') \<and>
               yaml_safe_load ?W = yaml_safe_load ?W \<and> ''YAML'' = ''YAML'') \<or>
              (''cfg/test.yaml'' = path_join (config_dir ?s) (''test'' @ ''.yml'') \<and>
               yaml_safe_load ?W = yaml_safe_load ?W \<and>
               ''YAML'' = ''YAML'' \<and> \<not> path_exists ?W (path_join (config_dir ?s) (''test'' @ ''.yaml''))) \<or>
              (''cfg/test.yaml'' = path_join (config_dir ?s) (''test'' @ ''.json'') \<and>
               yaml_safe_load ?W = json_load ?W \<and>
               ''YAML'' = ''JSON'' \<and> \<not> path_exists ?W (path_join (config_dir ?s) (''test'' @ ''.yaml'')) \<and>
               \<not> path_exists ?W (path_join (config_dir ?s) (''test'' @ ''.yml'')))"
    unfolding p by simp
  have present: "files ?W ''cfg/test.yaml'' = Some ''a: b: c''"
    by (simp add: fixture_world_def)
  have bad: "yaml_safe_load ?W ''cfg/test.yaml'' ''a: b: c'' =
             Inl (yaml_error_text ''cfg/test.yaml'')"
    by (simp add: fixture_world_def fixture_yaml_def rows_yaml_text_def)
  from load_config_parse_failure_propagates[OF miss base sel present bad]
  show ?thesis by (simp add: new_config_loader_def)
qed


section \<open>DataLoader: dispatch and the tuple loop\<close>

lemma endswith_last:
  assumes "endswith s suffix" and "suffix \<noteq> []"
  shows "last s = last suffix"
proof -
  from assms have d: "drop (length s - length suffix) s = suffix"
    and l: "length suffix \<le> length s"
    by (simp_all add: endswith_def)
  from assms(2) l have "length s - length suffix < length s"
    by (cases suffix) auto
  then have "last (drop (length s - length suffix) s) = last s"
    by (rule last_drop)
  with d show ?thesis by simp
qed

lemma not_csv_if_json: "endswith x ''.json'' \<Longrightarrow> \<not> endswith x ''.csv''"
  using endswith_last[of x "''.json''"] endswith_last[of x "''.csv''"] by auto

lemma not_csv_if_yaml: "endswith x ''.yaml'' \<or> endswith x ''.yml'' \<Longrightarrow> \<not> endswith x ''.csv''"
  using endswith_last[of x "''.yaml''"] endswith_last[of x "''.yml''"]
    endswith_last[of x "''.csv''"] by auto

lemma not_json_if_yaml: "endswith x ''.yaml'' \<or> endswith x ''.yml'' \<Longrightarrow> \<not> endswith x ''.json''"
  using endswith_last[of x "''.yaml''"] endswith_last[of x "''.yml''"]
    endswith_last[of x "''.json''"] by auto

lemma load_test_data_csv:
  "endswith (lower f) ''.csv'' \<Longrightarrow> load_test_data W s f = load_test_data_from_csv W s f"
  by (simp add: load_test_data_def)

lemma load_test_data_json:
  "endswith (lower f) ''.json'' \<Longrightarrow> load_test_data W s f = load_test_data_from_json W s f"
  by (simp add: load_test_data_def not_csv_if_json)

lemma load_test_data_yaml:
  assumes "endswith (lower f) ''.yaml'' \<or> endswith (lower f) ''.yml''"
  shows "load_test_data W s f = load_test_data_from_yaml W s f"
  using assms not_csv_if_yaml[OF assms] not_json_if_yaml[OF assms]
  by (simp add: load_test_data_def)

lemma make_tuple_complete:
  "\<forall>k\<in>set keys. map_of d k \<noteq> None \<Longrightarrow>
   make_tuple (PDict d) keys = Inr (map (\<lambda>k. the (map_of d k)) keys)"
  by (induction keys) auto

lemma make_tuple_missing:
  "find (\<lambda>k. map_of d k = None) keys = Some k \<Longrightarrow>
   make_tuple (PDict d) keys = Inl (KeyError k)"
  by (induction keys) (auto split: if_splits)

lemma tuples_loop_prefix:
  "\<forall>d\<in>set pre. \<forall>k\<in>set keys. map_of d k \<noteq> None \<Longrightarrow>
   tuples_loop keys (map PDict pre @ rest) acc =
   tuples_loop keys rest (acc @ map (\<lambda>d. map (\<lambda>k. the (map_of d k)) keys) pre)"
proof (induction pre arbitrary: acc)
  case Nil
  then show ?case by simp
next
  case (Cons d pre)
  then have "make_tuple (PDict d) keys = Inr (map (\<lambda>k. the (map_of d k)) keys)"
    by (intro make_tuple_complete) simp
  with Cons show ?case by simp
qed

lemma tuples_loop_complete:
  assumes "\<forall>d\<in>set ds. \<forall>k\<in>set keys. map_of d k \<noteq> None"
  shows "tuples_loop keys (map PDict ds) acc =
         Inr (acc @ map (\<lambda>d. map (\<lambda>k. the (map_of d k)) keys) ds)"
  using tuples_loop_prefix[OF assms, of "[]" acc] by simp

lemma contains_keys:
  "set keys \<subseteq> fst ` set d \<Longrightarrow> \<forall>k\<in>set keys. map_of d k \<noteq> None"
  by (auto simp: map_of_eq_None_iff)

text \<open>The three materialisers on a list of records: one and the same loop.\<close>

lemma from_csv_records:
  assumes "load_csv W s f = (Inr ds, s1)"
  shows "load_test_data_from_csv W s f =
         (case ds of [] \<Rightarrow> Inr [] | d # _ \<Rightarrow> tuples_loop (map fst d) (map PDict ds) [], s1)"
  using assms by (simp add: load_test_data_from_csv_def split: list.splits)

lemma from_json_records:
  assumes "load_json W s f = (Inr (PList (map PDict ds)), s1)"
  shows "load_test_data_from_json W s f =
         (case ds of [] \<Rightarrow> Inr [] | d # _ \<Rightarrow> tuples_loop (map fst d) (map PDict ds) [], s1)"
  using assms by (simp add: load_test_data_from_json_def split: list.splits)

lemma from_yaml_records:
  assumes "load_yaml W s f = (Inr (PList (map PDict ds)), s1)"
  shows "load_test_data_from_yaml W s f =
         (case ds of [] \<Rightarrow> Inr [] | d # _ \<Rightarrow> tuples_loop (map fst d) (map PDict ds) [], s1)"
  using assms by (simp add: load_test_data_from_yaml_def split: list.splits)

lemma load_test_data_records:
  assumes "(endswith (lower f) ''.csv'' \<and> load_csv W s f = (Inr ds, s1)) \<or>
           (endswith (lower f) ''.json'' \<and>
            load_json W s f = (Inr (PList (map PDict ds)), s1)) \<or>
           ((endswith (lower f) ''.yaml'' \<or> endswith (lower f) ''.yml'') \<and>
            load_yaml W s f = (Inr (PList (map PDict ds)), s1))"
  shows "load_test_data W s f =
         (case ds of [] \<Rightarrow> Inr [] | d # _ \<Rightarrow> tuples_loop (map fst d) (map PDict ds) [], s1)"
  using assms
  by (auto simp: load_test_data_csv load_test_data_json load_test_data_yaml
      from_csv_records from_json_records from_yaml_records)

lemma new_data_loader_dir:
  "data_dir (new_data_loader data_loader_file (Some ''data'')) = ''data'' \<and>
   data_dir (new_data_loader data_loader_file (Some [])) = [] \<and>
   data_dir (new_data_loader data_loader_file None) = ''/srv/app/data''"
  by code_simp

section \<open>DataLoader: the claims\<close>

text \<open>
  Claim C3. For a test-data file (CSV, JSON or YAML) whose loader yields a sequence of N
  records, each holding every key of the first record, \<open>load_test_data\<close> returns N
  tuples in the order of the records; each has as many components as the first record has
  keys, and component j of tuple i is the value that record i holds under the j-th key of
  the first record.
\<close>

theorem load_test_data_tuples:
  assumes src:
      "(endswith (lower file_name) ''.csv'' \<and> load_csv W s file_name = (Inr ds, s1)) \<or>
       (endswith (lower file_name) ''.json'' \<and>
        load_json W s file_name = (Inr (PList (map PDict ds)), s1)) \<or>
       ((endswith (lower file_name) ''.yaml'' \<or> endswith (lower file_name) ''.yml'') \<and>
        load_yaml W s file_name = (Inr (PList (map PDict ds)), s1))"
    and keys: "\<forall>d\<in>set ds. set (map fst (hd ds)) \<subseteq> fst ` set d"
  shows "\<exists>ts. load_test_data W s file_name = (Inr ts, s1) \<and>
           ts = map (\<lambda>d. map (\<lambda>k. the (map_of d k)) (map fst (hd ds))) ds \<and>
           length ts = length ds \<and>
           (\<forall>i<length ds. length (ts ! i) = length (hd ds) \<and>
              (\<forall>j<length (hd ds). map_of (ds ! i) (fst (hd ds ! j)) = Some (ts ! i ! j)))"
proof -
  let ?keys = "map fst (hd ds)"
  let ?ts = "map (\<lambda>d. map (\<lambda>k. the (map_of d k)) ?keys) ds"
  have all: "\<forall>d\<in>set ds. \<forall>k\<in>set ?keys. map_of d k \<noteq> None"
  proof
    fix d assume "d \<in> set ds"
    with keys have "set ?keys \<subseteq> fst ` set d" by (rule bspec)
    then show "\<forall>k\<in>set ?keys. map_of d k \<noteq> None" by (rule contains_keys)
  qed
  have run: "load_test_data W s file_name = (Inr ?ts, s1)"
  proof (cases ds)
    case Nil
    with load_test_data_records[OF src] show ?thesis by simp
  next
    case (Cons d rest)
    then have "tuples_loop (map fst d) (map PDict ds) [] = Inr ?ts"
      using tuples_loop_complete[OF all, of "[]"] by simp
    with Cons load_test_data_records[OF src] show ?thesis by simp
  qed
  have aligned: "map_of (ds ! i) (fst (hd ds ! j)) = Some (?ts ! i ! j)"
    if i: "i < length ds" and j: "j < length (hd ds)" for i j
  proof -
    from j have "?keys ! j \<in> set ?keys" by (intro nth_mem) simp
    moreover from i have "ds ! i \<in> set ds" by simp
    ultimately have "map_of (ds ! i) (?keys ! j) \<noteq> None" using all by blast
    then show ?thesis using i j by auto
  qed
  have "length ?ts = length ds" by simp
  moreover have "\<forall>i<length ds. length (?ts ! i) = length (hd ds) \<and>
       (\<forall>j<length (hd ds). map_of (ds ! i) (fst (hd ds ! j)) = Some (?ts ! i ! j))"
    using aligned by simp
  ultimately show ?thesis using run by blast
qed

text \<open>
  The CSV fixture \<^verbatim>\<open>users.csv\<close> with the header \<^verbatim>\<open>a,b\<close> and two rows gives two pairs in
  the order of the rows.
\<close>

theorem load_test_data_tuples_witness:
  "load_csv (fixture_world [(''data/users.csv'', rows_csv_text)]) (new_data_loader data_loader_file (Some ''data''))
     ''users.csv'' =
     (Inr rows,
      \<lparr>data_dir = ''data'',
       dl_logged = [(INFO, ''Loaded 2 rows from CSV file: data/users.csv'')]\<rparr>) \<and>
   load_test_data (fixture_world [(''data/users.csv'', rows_csv_text)]) (new_data_loader data_loader_file (Some ''data''))
     ''users.csv'' =
     (Inr [[PStr ''1'', PStr ''2''], [PStr ''3'', PStr ''4'']],
      \<lparr>data_dir = ''data'',
       dl_logged = [(INFO, ''Loaded 2 rows from CSV file: data/users.csv'')]\<rparr>)"
proof -
  let ?W = "fixture_world [(''data/users.csv'', rows_csv_text)]"
  let ?s = "new_data_loader data_loader_file (Some ''data'')"
  let ?s1 = "\<lparr>data_dir = ''data'',
              dl_logged = [(INFO, ''Loaded 2 rows from CSV file: data/users.csv'')]\<rparr>"
  have e: "endswith (lower ''users.csv'') ''.csv''" by code_simp
  have l: "load_csv ?W ?s ''users.csv'' = (Inr rows, ?s1)" by code_simp
  have src:
      "(endswith (lower ''users.csv'') ''.csv'' \<and> load_csv ?W ?s ''users.csv'' = (Inr rows, ?s1)) \<or>
       (endswith (lower ''users.csv'') ''.json'' \<and>
        load_json ?W ?s ''users.csv'' = (Inr (PList (map PDict rows)), ?s1)) \<or>
       ((endswith (lower ''users.csv'') ''.yaml'' \<or> endswith (lower ''users.csv'') ''.yml'') \<and>
        load_yaml ?W ?s ''users.csv'' = (Inr (PList (map PDict rows)), ?s1))"
    using e l by blast
  have keys: "\<forall>d\<in>set rows. set (map fst (hd rows)) \<subseteq> fst ` set d"
    by (simp add: rows_def)
  from load_test_data_tuples[OF src keys]
  have "load_test_data ?W ?s ''users.csv'' =
        (Inr (map (\<lambda>d. map (\<lambda>k. the (map_of d k)) (map fst (hd rows))) rows), ?s1)"
    by blast
  then have "load_test_data ?W ?s ''users.csv'' =
        (Inr [[PStr ''1'', PStr ''2''], [PStr ''3'', PStr ''4'']], ?s1)"
    by (simp add: rows_def)
  with l show ?thesis by blast
qed

text \<open>
  Claim C5. For a JSON or YAML test-data file that parses to a sequence of mappings in
  which record i, with i > 0, is the first to lack a key of the first record,
  \<open>load_test_data\<close> raises the key-lookup error for the first key (in the first record's
  order) that record i lacks, and returns no tuples. The error arises when record i is
  processed: the tuples of all records before it have been built, the loop stands at
  record i with exactly those tuples in \<^verbatim>\<open>result\<close>, and the lookup in record i is what
  raises.
\<close>

theorem load_test_data_missing_key:
  assumes src:
      "(endswith (lower file_name) ''.json'' \<and>
        load_json W s file_name = (Inr (PList (map PDict ds)), s1)) \<or>
       ((endswith (lower file_name) ''.yaml'' \<or> endswith (lower file_name) ''.yml'') \<and>
        load_yaml W s file_name = (Inr (PList (map PDict ds)), s1))"
    and pos: "0 < i" and len: "i < length ds"
    and pre: "\<forall>j<i. set (map fst (hd ds)) \<subseteq> fst ` set (ds ! j)"
    and bad: "\<not> set (map fst (hd ds)) \<subseteq> fst ` set (ds ! i)"
  shows "\<exists>k. find (\<lambda>k. map_of (ds ! i) k = None) (map fst (hd ds)) = Some k \<and>
           load_test_data W s file_name = (Inl (KeyError k), s1) \<and>
           (\<forall>j<i. make_tuple (PDict (ds ! j)) (map fst (hd ds)) =
                    Inr (map (\<lambda>k. the (map_of (ds ! j) k)) (map fst (hd ds)))) \<and>
           tuples_loop (map fst (hd ds)) (map PDict ds) [] =
             tuples_loop (map fst (hd ds)) (map PDict (drop i ds))
               (map (\<lambda>d. map (\<lambda>k. the (map_of d k)) (map fst (hd ds))) (take i ds)) \<and>
           make_tuple (PDict (ds ! i)) (map fst (hd ds)) = Inl (KeyError k)"
proof -
  let ?keys = "map fst (hd ds)"
  let ?row = "\<lambda>d. map (\<lambda>k. the (map_of d k)) ?keys"
  from bad have "\<exists>k\<in>set ?keys. map_of (ds ! i) k = None"
    by (auto simp: map_of_eq_None_iff)
  then have "find (\<lambda>k. map_of (ds ! i) k = None) ?keys \<noteq> None"
    by (simp add: find_None_iff)
  then obtain k where k: "find (\<lambda>k. map_of (ds ! i) k = None) ?keys = Some k"
    by blast
  then have raise: "make_tuple (PDict (ds ! i)) ?keys = Inl (KeyError k)"
    by (rule make_tuple_missing)
  have before: "\<forall>d\<in>set (take i ds). \<forall>k\<in>set ?keys. map_of d k \<noteq> None"
  proof
    fix d assume "d \<in> set (take i ds)"
    then obtain j where j: "j < i" "j < length ds" and d: "d = ds ! j"
      using len by (auto simp: in_set_conv_nth)
    from pre j have "set ?keys \<subseteq> fst ` set (ds ! j)" by blast
    then have "\<forall>k\<in>set ?keys. map_of (ds ! j) k \<noteq> None" by (rule contains_keys)
    with d show "\<forall>k\<in>set ?keys. map_of d k \<noteq> None" by simp
  qed
  have each: "\<forall>j<i. make_tuple (PDict (ds ! j)) ?keys = Inr (?row (ds ! j))"
  proof (intro allI impI)
    fix j assume "j < i"
    with pre have "set ?keys \<subseteq> fst ` set (ds ! j)" by blast
    then have "\<forall>k\<in>set ?keys. map_of (ds ! j) k \<noteq> None" by (rule contains_keys)
    then show "make_tuple (PDict (ds ! j)) ?keys = Inr (?row (ds ! j))"
      by (rule make_tuple_complete)
  qed
  have split: "map PDict ds = map PDict (take i ds) @ map PDict (drop i ds)"
    by (simp flip: map_append)
  have reach: "tuples_loop ?keys (map PDict ds) [] =
               tuples_loop ?keys (map PDict (drop i ds)) (map ?row (take i ds))"
    using tuples_loop_prefix[OF before, of "map PDict (drop i ds)" "[]"] split by simp
  from len have "drop i ds = ds ! i # drop (Suc i) ds"
    by (simp add: Cons_nth_drop_Suc)
  with raise have "tuples_loop ?keys (map PDict (drop i ds)) (map ?row (take i ds)) =
                   Inl (KeyError k)"
    by simp
  with reach have loop: "tuples_loop ?keys (map PDict ds) [] = Inl (KeyError k)" by simp
  from len obtain d rest where ds: "ds = d # rest" by (cases ds) auto
  have src': "(endswith (lower file_name) ''.csv'' \<and> load_csv W s file_name = (Inr ds, s1)) \<or>
       (endswith (lower file_name) ''.json'' \<and>
        load_json W s file_name = (Inr (PList (map PDict ds)), s1)) \<or>
       ((endswith (lower file_name) ''.yaml'' \<or> endswith (lower file_name) ''.yml'') \<and>
        load_yaml W s file_name = (Inr (PList (map PDict ds)), s1))"
    using src by blast
  have "load_test_data W s file_name = (tuples_loop ?keys (map PDict ds) [], s1)"
    using load_test_data_records[OF src'] ds by simp
  with loop have "load_test_data W s file_name = (Inl (KeyError k), s1)" by simp
  with k each reach raise show ?thesis by blast
qed

text \<open>
  The JSON fixture \<^verbatim>\<open>ragged.json\<close>: its second record has no \<^verbatim>\<open>b\<close>, the third is whole
  again. The call ends with \<^verbatim>\<open>KeyError('b')\<close>, after the tuple of the first record was
  built.
\<close>

theorem load_test_data_missing_key_witness:
  "load_json (fixture_world [(''data/ragged.json'', ragged_json_text)]) (new_data_loader data_loader_file (Some ''data''))
     ''ragged.json'' =
     (Inr (PList (map PDict ragged_rows)),
      \<lparr>data_dir = ''data'', dl_logged = [(INFO, ''Loaded JSON data from file: data/ragged.json'')]\<rparr>) \<and>
   load_test_data (fixture_world [(''data/ragged.json'', ragged_json_text)])
     (new_data_loader data_loader_file (Some ''data'')) ''ragged.json'' =
     (Inl (KeyError ''b''),
      \<lparr>data_dir = ''data'', dl_logged = [(INFO, ''Loaded JSON data from file: data/ragged.json'')]\<rparr>) \<and>
   make_tuple (PDict (ragged_rows ! 0)) (map fst (hd ragged_rows)) = Inr [PStr ''1'', PStr ''2''] \<and>
   make_tuple (PDict (ragged_rows ! 1)) (map fst (hd ragged_rows)) = Inl (KeyError ''b'')"
proof -
  let ?W = "fixture_world [(''data/ragged.json'', ragged_json_text)]"
  let ?s = "new_data_loader data_loader_file (Some ''data'')"
  let ?s1 = "\<lparr>data_dir = ''data'',
              dl_logged = [(INFO, ''Loaded JSON data from file: data/ragged.json'')]\<rparr>"
  have e: "endswith (lower ''ragged.json'') ''.json''" by code_simp
  have l: "load_json ?W ?s ''ragged.json'' = (Inr (PList (map PDict ragged_rows)), ?s1)"
    by code_simp
  have src:
      "(endswith (lower ''ragged.json'') ''.json'' \<and>
        load_json ?W ?s ''ragged.json'' = (Inr (PList (map PDict ragged_rows)), ?s1)) \<or>
       ((endswith (lower ''ragged.json'') ''.yaml'' \<or> endswith (lower ''ragged.json'') ''.yml'') \<and>
        load_yaml ?W ?s ''ragged.json'' = (Inr (PList (map PDict ragged_rows)), ?s1))"
    using e l by blast
  have pos: "0 < (1::nat)" by simp
  have len: "1 < length ragged_rows" by (simp add: ragged_rows_def)
  have pre: "\<forall>j<1. set (map fst (hd ragged_rows)) \<subseteq> fst ` set (ragged_rows ! j)"
    by (simp add: ragged_rows_def)
  have bad: "\<not> set (map fst (hd ragged_rows)) \<subseteq> fst ` set (ragged_rows ! 1)"
    by (simp add: ragged_rows_def)
  have f: "find (\<lambda>k. map_of (ragged_rows ! 1) k = None) (map fst (hd ragged_rows)) = Some ''b''"
    by (simp add: ragged_rows_def)
  from load_test_data_missing_key[OF src pos len pre bad] f
  have a: "load_test_data ?W ?s ''ragged.json'' = (Inl (KeyError ''b''), ?s1) \<and>
        make_tuple (PDict (ragged_rows ! 1)) (map fst (hd ragged_rows)) = Inl (KeyError ''b'')"
    by auto
  have b: "make_tuple (PDict (ragged_rows ! 0)) (map fst (hd ragged_rows)) =
           Inr [PStr ''1'', PStr ''2'']"
    by (simp add: ragged_rows_def)
  from l a b show ?thesis by blast
qed

text \<open>
  Claim C6. For a JSON or YAML test-data file whose parsed top-level value is not a list
  (a single mapping, for example), \<open>load_test_data\<close> fails with the \<^verbatim>\<open>ValueError\<close> of the
  shape check, whose message ends with the file name as it was passed; it never returns a
  list of tuples, empty or not.
\<close>

theorem load_test_data_not_a_list:
  assumes src:
      "(endswith (lower file_name) ''.json'' \<and> kind = ''JSON'' \<and>
        load_json W s file_name = (Inr v, s1)) \<or>
       ((endswith (lower file_name) ''.yaml'' \<or> endswith (lower file_name) ''.yml'') \<and>
        kind = ''YAML'' \<and> load_yaml W s file_name = (Inr v, s1))"
    and shape: "\<forall>xs. v \<noteq> PList xs"
  shows "load_test_data W s file_name =
         (Inl (ValueError (kind @ '' test data must be a list of objects: '' @ file_name)), s1)"
proof -
  from src show ?thesis
  proof
    assume j: "endswith (lower file_name) ''.json'' \<and> kind = ''JSON'' \<and>
               load_json W s file_name = (Inr v, s1)"
    then have "load_test_data W s file_name = load_test_data_from_json W s file_name"
      by (simp add: load_test_data_json)
    with j shape show ?thesis
      by (cases v) (simp_all add: load_test_data_from_json_def)
  next
    assume y: "(endswith (lower file_name) ''.yaml'' \<or> endswith (lower file_name) ''.yml'') \<and>
               kind = ''YAML'' \<and> load_yaml W s file_name = (Inr v, s1)"
    then have "load_test_data W s file_name = load_test_data_from_yaml W s file_name"
      by (simp add: load_test_data_yaml)
    with y shape show ?thesis
      by (cases v) (simp_all add: load_test_data_from_yaml_def)
  qed
qed

text \<open>The JSON fixture \<^verbatim>\<open>one.json\<close> holds a single object at the top level.\<close>

theorem load_test_data_not_a_list_witness:
  "load_json (fixture_world [(''data/one.json'', mapping_json_text)]) (new_data_loader data_loader_file (Some ''data''))
     ''one.json'' =
     (Inr (PDict [(''a'', PStr ''1''), (''b'', PStr ''2'')]),
      \<lparr>data_dir = ''data'', dl_logged = [(INFO, ''Loaded JSON data from file: data/one.json'')]\<rparr>) \<and>
   load_test_data (fixture_world [(''data/one.json'', mapping_json_text)])
     (new_data_loader data_loader_file (Some ''data'')) ''one.json'' =
     (Inl (ValueError ''JSON test data must be a list of objects: one.json''),
      \<lparr>data_dir = ''data'', dl_logged = [(INFO, ''Loaded JSON data from file: data/one.json'')]\<rparr>)"
proof -
  let ?W = "fixture_world [(''data/one.json'', mapping_json_text)]"
  let ?s = "new_data_loader data_loader_file (Some ''data'')"
  let ?s1 = "\<lparr>data_dir = ''data'',
              dl_logged = [(INFO, ''Loaded JSON data from file: data/one.json'')]\<rparr>"
  let ?v = "PDict [(''a'', PStr ''1''), (''b'', PStr ''2'')]"
  have e: "endswith (lower ''one.json'') ''.json''" by code_simp
  have l: "load_json ?W ?s ''one.json'' = (Inr ?v, ?s1)" by code_simp
  have src:
      "(endswith (lower ''one.json'') ''.json'' \<and> ''JSON'' = ''JSON'' \<and>
        load_json ?W ?s ''one.json'' = (Inr ?v, ?s1)) \<or>
       ((endswith (lower ''one.json'') ''.yaml'' \<or> endswith (lower ''one.json'') ''.yml'') \<and>
        ''JSON'' = ''YAML'' \<and> load_yaml ?W ?s ''one.json'' = (Inr ?v, ?s1))"
    using e l by blast
  have shape: "\<forall>xs. ?v \<noteq> PList xs" by simp
  from load_test_data_not_a_list[OF src shape]
  have "load_test_data ?W ?s ''one.json'' =
        (Inl (ValueError ''JSON test data must be a list of objects: one.json''), ?s1)"
    by simp
  with l show ?thesis by blast
qed

text \<open>
  Claim C7. When the CSV, the JSON and the YAML loader yield the same records for three
  files, \<open>load_test_data\<close> gives the same outcome for the three files; for the records
  \<^verbatim>\<open>{"a":"1","b":"2"}\<close> and \<^verbatim>\<open>{"a":"3","b":"4"}\<close> that outcome is the list
  \<^verbatim>\<open>[("1","2"), ("3","4")]\<close>.
\<close>

theorem load_test_data_formats_agree:
  assumes csv: "endswith (lower csv_name) ''.csv''"
    and json: "endswith (lower json_name) ''.json''"
    and yaml: "endswith (lower yaml_name) ''.yaml'' \<or> endswith (lower yaml_name) ''.yml''"
    and from_csv: "fst (load_csv W s csv_name) = Inr ds"
    and from_json: "fst (load_json W s json_name) = Inr (PList (map PDict ds))"
    and from_yaml: "fst (load_yaml W s yaml_name) = Inr (PList (map PDict ds))"
  shows "fst (load_test_data W s csv_name) = fst (load_test_data W s json_name) \<and>
         fst (load_test_data W s json_name) = fst (load_test_data W s yaml_name) \<and>
         (ds = [[(''a'', PStr ''1''), (''b'', PStr ''2'')], [(''a'', PStr ''3''), (''b'', PStr ''4'')]] \<longrightarrow>
          fst (load_test_data W s csv_name) =
            Inr [[PStr ''1'', PStr ''2''], [PStr ''3'', PStr ''4'']])"
proof -
  let ?out = "case ds of [] \<Rightarrow> Inr [] | d # _ \<Rightarrow> tuples_loop (map fst d) (map PDict ds) []"
  from from_csv have "load_csv W s csv_name = (Inr ds, snd (load_csv W s csv_name))"
    by (simp add: prod_eq_iff)
  with csv have c: "fst (load_test_data W s csv_name) = ?out"
    by (simp add: load_test_data_csv from_csv_records)
  from from_json
  have "load_json W s json_name = (Inr (PList (map PDict ds)), snd (load_json W s json_name))"
    by (simp add: prod_eq_iff)
  with json have j: "fst (load_test_data W s json_name) = ?out"
    by (simp add: load_test_data_json from_json_records)
  from from_yaml
  have "load_yaml W s yaml_name = (Inr (PList (map PDict ds)), snd (load_yaml W s yaml_name))"
    by (simp add: prod_eq_iff)
  with yaml have y: "fst (load_test_data W s yaml_name) = ?out"
    by (simp add: load_test_data_yaml from_yaml_records)
  have "?out = Inr [[PStr ''1'', PStr ''2''], [PStr ''3'', PStr ''4'']]"
    if "ds = [[(''a'', PStr ''1''), (''b'', PStr ''2'')], [(''a'', PStr ''3''), (''b'', PStr ''4'')]]"
    using that by simp
  with c j y show ?thesis by simp
qed

text \<open>
  The three fixtures \<^verbatim>\<open>t.csv\<close>, \<^verbatim>\<open>t.json\<close> and \<^verbatim>\<open>t.yaml\<close> hold the two rows; each gives
  \<^verbatim>\<open>[("1","2"), ("3","4")]\<close>.
\<close>

theorem load_test_data_formats_agree_witness:
  "fst (load_test_data
          (fixture_world [(''data/t.csv'', rows_csv_text), (''data/t.json'', rows_json_text),
                          (''data/t.yaml'', rows_yaml_text)])
          (new_data_loader data_loader_file (Some ''data'')) ''t.csv'') =
     Inr [[PStr ''1'', PStr ''2''], [PStr ''3'', PStr ''4'']] \<and>
   fst (load_test_data
          (fixture_world [(''data/t.csv'', rows_csv_text), (''data/t.json'', rows_json_text),
                          (''data/t.yaml'', rows_yaml_text)])
          (new_data_loader data_loader_file (Some ''data'')) ''t.json'') =
     Inr [[PStr ''1'', PStr ''2''], [PStr ''3'', PStr ''4'']] \<and>
   fst (load_test_data
          (fixture_world [(''data/t.csv'', rows_csv_text), (''data/t.json'', rows_json_text),
                          (''data/t.yaml'', rows_yaml_text)])
          (new_data_loader data_loader_file (Some ''data'')) ''t.yaml'') =
     Inr [[PStr ''1'', PStr ''2''], [PStr ''3'', PStr ''4'']]"
proof -
  let ?W = "fixture_world [(''data/t.csv'', rows_csv_text), (''data/t.json'', rows_json_text),
                           (''data/t.yaml'', rows_yaml_text)]"
  let ?s = "new_data_loader data_loader_file (Some ''data'')"
  have csv: "endswith (lower ''t.csv'') ''.csv''" by code_simp
  have json: "endswith (lower ''t.json'') ''.json''" by code_simp
  have yaml: "endswith (lower ''t.yaml'') ''.yaml'' \<or> endswith (lower ''t.yaml'') ''.yml''"
    by code_simp
  have from_csv: "fst (load_csv ?W ?s ''t.csv'') = Inr rows" by code_simp
  have from_json: "fst (load_json ?W ?s ''t.json'') = Inr (PList (map PDict rows))" by code_simp
  have from_yaml: "fst (load_yaml ?W ?s ''t.yaml'') = Inr (PList (map PDict rows))" by code_simp
  note agree = load_test_data_formats_agree[OF csv json yaml from_csv from_json from_yaml]
  have r: "rows = [[(''a'', PStr ''1''), (''b'', PStr ''2'')], [(''a'', PStr ''3''), (''b'', PStr ''4'')]]"
    by (simp add: rows_def)
  from agree r have c: "fst (load_test_data ?W ?s ''t.csv'') =
                        Inr [[PStr ''1'', PStr ''2''], [PStr ''3'', PStr ''4'']]"
    by blast
  from agree have "fst (load_test_data ?W ?s ''t.json'') = fst (load_test_data ?W ?s ''t.csv'')"
    by simp
  with c have j: "fst (load_test_data ?W ?s ''t.json'') =
                  Inr [[PStr ''1'', PStr ''2''], [PStr ''3'', PStr ''4'']]"
    by simp
  from agree have "fst (load_test_data ?W ?s ''t.yaml'') = fst (load_test_data ?W ?s ''t.json'')"
    by simp
  with j have y: "fst (load_test_data ?W ?s ''t.yaml'') =
                  Inr [[PStr ''1'', PStr ''2''], [PStr ''3'', PStr ''4'']]"
    by simp
  from c j y show ?thesis by blast
qed

end
